theory Spec2Isabelle
  imports Complex_Main "HOL-Library.Word"
begin

section \<open>espcam/appfinal.py: hands-up detection server\<close>

text \<open>
  A shallow embedding of \<^verbatim>\<open>src/espcam/appfinal.py\<close>: the two module globals
  \<^verbatim>\<open>latest_frame\<close> and \<^verbatim>\<open>latest_frame_to_process\<close> are a record that every
  operation takes and returns; each Python function returns, beside its value, the list of
  effects it performed, in program order; an exception is the \<open>Inl\<close> of a sum. The
  libraries the module calls (OpenCV's codec and drawing, the MediaPipe estimator, the
  clock, SMTP, Twilio) are parameters.
\<close>

subsection \<open>Data\<close>

type_synonym byte = "8 word"

text \<open>A decoded image is a NumPy \<^verbatim>\<open>uint8\<close> array of shape (rows, columns, channels).\<close>

type_synonym frame = "byte list list list"

text \<open>Exceptions: Python's own \<^verbatim>\<open>IndexError\<close>, and whatever a library raises.\<close>

datatype exn = IndexError | LibraryError string

text \<open>
  A MediaPipe landmark. The coordinates are Python floats; they are modelled as real
  numbers, with exact arithmetic. (The field \<^verbatim>\<open>y\<close> is named \<open>lm_y\<close> here.)
\<close>

record landmark =
  lm_x :: real
  lm_y :: real
  lm_z :: real
  lm_visibility :: real

text \<open>
  The four members of MediaPipe's enum \<^verbatim>\<open>mp_pose.PoseLandmark\<close> that the module uses,
  and their \<^verbatim>\<open>.value\<close> in that library.
\<close>

datatype PoseLandmark = LEFT_SHOULDER | RIGHT_SHOULDER | LEFT_WRIST | RIGHT_WRIST

fun pl_value :: "PoseLandmark \<Rightarrow> nat" where
  "pl_value LEFT_SHOULDER = 11"
| "pl_value RIGHT_SHOULDER = 12"
| "pl_value LEFT_WRIST = 15"
| "pl_value RIGHT_WRIST = 16"

text \<open>\<^verbatim>\<open>lm[i]\<close> for a non-negative index: out of range raises.\<close>

definition getitem :: "'a list \<Rightarrow> nat \<Rightarrow> exn + 'a" where
  "getitem xs i = (if i < length xs then Inr (xs ! i) else Inl IndexError)"

subsection \<open>The hands-up heuristic (lines 109 to 119)\<close>

text \<open>
  \<^verbatim>\<open>
  lm = results.pose_landmarks.landmark
  lw, rw = lm[mp_pose.PoseLandmark.LEFT_WRIST.value], lm[mp_pose.PoseLandmark.RIGHT_WRIST.value]
  ls, rs = lm[mp_pose.PoseLandmark.LEFT_SHOULDER.value], lm[mp_pose.PoseLandmark.RIGHT_SHOULDER.value]
  margin_left = 0.2 * abs(ls.y - lw.y)
  margin_right = 0.2 * abs(rs.y - rw.y)
  hands_up = (lw.y + margin_left < ls.y) and (rw.y + margin_right < rs.y)
  \<close>
\<close>

record joints =
  lw :: landmark
  rw :: landmark
  ls :: landmark
  rs :: landmark

definition get_joints :: "landmark list \<Rightarrow> exn + joints" where
  "get_joints lm =
     (case getitem lm (pl_value LEFT_WRIST) of Inl e \<Rightarrow> Inl e | Inr a \<Rightarrow>
     (case getitem lm (pl_value RIGHT_WRIST) of Inl e \<Rightarrow> Inl e | Inr b \<Rightarrow>
     (case getitem lm (pl_value LEFT_SHOULDER) of Inl e \<Rightarrow> Inl e | Inr c \<Rightarrow>
     (case getitem lm (pl_value RIGHT_SHOULDER) of Inl e \<Rightarrow> Inl e | Inr d \<Rightarrow>
        Inr \<lparr>lw = a, rw = b, ls = c, rs = d\<rparr>))))"

definition margin_left :: "joints \<Rightarrow> real" where
  "margin_left j = 0.2 * \<bar>lm_y (ls j) - lm_y (lw j)\<bar>"

definition margin_right :: "joints \<Rightarrow> real" where
  "margin_right j = 0.2 * \<bar>lm_y (rs j) - lm_y (rw j)\<bar>"

definition hands_up :: "joints \<Rightarrow> bool" where
  "hands_up j =
     (lm_y (lw j) + margin_left j < lm_y (ls j) \<and> lm_y (rw j) + margin_right j < lm_y (rs j))"

subsection \<open>Effects\<close>

text \<open>The targets of the threads that \<^verbatim>\<open>process_frame\<close> starts (lines 129, 130).\<close>

datatype task = SendEmail string | SendSms

text \<open>What the module prints (the clock prefix and the emoji of a line are left out).\<close>

datatype msg =
    NoPoseDetected
  | Positions real real real real
  | HandsUpIs bool
  | SendingAlert
  | UploadFailed exn
  | EmailSent
  | EmailFailed exn
  | TwilioNotInstalled
  | SmsSent string
  | SmsFailed exn

text \<open>The address, the sender and the recipient of a mail, and the name of its attachment.\<close>

record email =
  subject :: string
  mail_from :: "string option"
  mail_to :: "string option"
  body_text :: string
  attachment_name :: string
  attachment :: "byte list"

text \<open>
  One event for each statement that acts on something outside the function's locals:
  the lock \<^verbatim>\<open>frame_lock\<close>, the two globals, the disk, the estimator, the standard
  output, threads and the network.
\<close>

datatype event =
    LockAcquire
  | LockRelease
  | SlotCopy
  | SlotAssign
  | StoreAssign
  | Sleep
  | Print msg
  | ImWrite string frame
  | PoseProcess frame
  | DrawLandmarks "landmark list"
  | ThreadStart task
  | OpenRead string
  | SmtpConnect
  | SmtpStartTls
  | SmtpLogin "string option" "string option"
  | SmtpSendMessage email
  | SmtpQuit
  | TwilioNew "string option" "string option"
  | TwilioCreate string "string option" "string option"

subsection \<open>The libraries\<close>

text \<open>
  OpenCV and MediaPipe, as the module uses them: \<^verbatim>\<open>cv2.imdecode\<close> returns an image
  or \<^verbatim>\<open>None\<close>, or raises; \<^verbatim>\<open>pose.process\<close> returns landmarks or none
  (\<^verbatim>\<open>results.pose_landmarks\<close> is \<^verbatim>\<open>None\<close>), or raises.
\<close>

record env =
  imdecode :: "byte list \<Rightarrow> exn + frame option"
  imencode :: "frame \<Rightarrow> byte list"
  pose_process :: "frame \<Rightarrow> exn + landmark list option"
  draw_landmarks :: "frame \<Rightarrow> landmark list \<Rightarrow> frame"

text \<open>\<^verbatim>\<open>cv2.cvtColor(frame, cv2.COLOR_BGR2RGB)\<close> reverses the channels of every pixel.\<close>

definition cvtColor_BGR2RGB :: "frame \<Rightarrow> frame" where
  "cvtColor_BGR2RGB f = map (map rev) f"

subsection \<open>Module state (lines 31 to 42)\<close>

record state =
  latest_frame :: frame
  latest_frame_to_process :: "frame option"

text \<open>\<^verbatim>\<open>np.zeros((480, 640, 3), dtype=np.uint8)\<close>\<close>

definition np_zeros :: "nat \<Rightarrow> nat \<Rightarrow> nat \<Rightarrow> frame" where
  "np_zeros h w c = replicate h (replicate w (replicate c 0))"

definition init :: state where
  "init = \<lparr>latest_frame = np_zeros 480 640 3, latest_frame_to_process = None\<rparr>"

definition UPLOAD_FOLDER :: string where
  "UPLOAD_FOLDER = ''upload''"

text \<open>Python's \<^verbatim>\<open>str\<close> of an integer, and \<^verbatim>\<open>os.path.join\<close> of two relative POSIX paths.\<close>

fun str_nat :: "nat \<Rightarrow> string" where
  "str_nat n =
     (if n < 10 then [''0123456789'' ! n] else str_nat (n div 10) @ [''0123456789'' ! (n mod 10)])"

declare str_nat.simps [simp del]

definition str_int :: "int \<Rightarrow> string" where
  "str_int i = (if i < 0 then CHR ''-'' # str_nat (nat (- i)) else str_nat (nat i))"

definition path_join :: "string \<Rightarrow> string \<Rightarrow> string" where
  "path_join d f = d @ ''/'' @ f"

text \<open>\<^verbatim>\<open>os.path.join(UPLOAD_FOLDER, f"frame_{ts}.jpg")\<close>\<close>

definition frame_path_of :: "int \<Rightarrow> string" where
  "frame_path_of ts = path_join UPLOAD_FOLDER (''frame_'' @ str_int ts @ ''.jpg'')"

subsection \<open>\<^verbatim>\<open>process_frame\<close> (lines 95 to 130)\<close>

text \<open>
  The argument \<open>ts\<close> is what \<^verbatim>\<open>int(time.time())\<close> returns in this call. A NumPy
  \<^verbatim>\<open>.copy()\<close> is the identity on values. The function has no \<^verbatim>\<open>try\<close>: what the
  estimator or an index raises leaves it, with the state as it is at that point.
\<close>

definition process_frame ::
  "env \<Rightarrow> int \<Rightarrow> frame \<Rightarrow> state \<Rightarrow> (exn + unit) \<times> event list \<times> state" where
  "process_frame E ts frame s =
     (let frame_path = frame_path_of ts;
          image_rgb = cvtColor_BGR2RGB frame;
          ev1 = [ImWrite frame_path frame, PoseProcess image_rgb]
      in case pose_process E image_rgb of
           Inl e \<Rightarrow> (Inl e, ev1, s)
         | Inr None \<Rightarrow>
             (Inr (), ev1 @ [Print NoPoseDetected, StoreAssign], s\<lparr>latest_frame := frame\<rparr>)
         | Inr (Some lm) \<Rightarrow>
             (case get_joints lm of
                Inl e \<Rightarrow> (Inl e, ev1, s)
              | Inr j \<Rightarrow>
                 (let ev2 = ev1 @
                        [Print (Positions (lm_y (lw j)) (lm_y (ls j)) (lm_y (rw j)) (lm_y (rs j))),
                         Print (HandsUpIs (hands_up j)),
                         DrawLandmarks lm, StoreAssign];
                      s' = s\<lparr>latest_frame := draw_landmarks E frame lm\<rparr>
                  in if hands_up j
                     then (Inr (),
                           ev2 @ [Print SendingAlert, ThreadStart (SendEmail frame_path),
                                  ThreadStart SendSms],
                           s')
                     else (Inr (), ev2, s'))))"

subsection \<open>The frame slot: \<^verbatim>\<open>upload\<close> (lines 163 to 165), \<^verbatim>\<open>frame_worker\<close> (lines 136 to 139)\<close>

text \<open>
  \<^verbatim>\<open>
  with frame_lock:
      latest_frame_to_process = frame.copy()
  \<close>
\<close>

definition publish :: "frame \<Rightarrow> state \<Rightarrow> event list \<times> state" where
  "publish frame s =
     ([LockAcquire, SlotAssign, LockRelease], s\<lparr>latest_frame_to_process := Some frame\<rparr>)"

text \<open>
  \<^verbatim>\<open>
  if latest_frame_to_process is not None:
      with frame_lock:
          frame = latest_frame_to_process.copy()
          latest_frame_to_process = None
  \<close>
\<close>

definition take_if_present :: "state \<Rightarrow> frame option \<times> event list \<times> state" where
  "take_if_present s =
     (case latest_frame_to_process s of
        None \<Rightarrow> (None, [], s)
      | Some frame \<Rightarrow>
          (Some frame, [LockAcquire, SlotCopy, SlotAssign, LockRelease],
           s\<lparr>latest_frame_to_process := None\<rparr>))"

subsection \<open>One turn of the loop of \<^verbatim>\<open>frame_worker\<close> (lines 135 to 142)\<close>

definition frame_worker_step ::
  "env \<Rightarrow> int \<Rightarrow> state \<Rightarrow> (exn + unit) \<times> event list \<times> state" where
  "frame_worker_step E ts s =
     (case take_if_present s of
        (None, evs, s') \<Rightarrow> (Inr (), evs @ [Sleep], s')
      | (Some frame, evs, s') \<Rightarrow>
          (case process_frame E ts frame s' of (r, evs', s'') \<Rightarrow> (r, evs @ evs', s'')))"

subsection \<open>The routes \<^verbatim>\<open>/latest.jpg\<close> and \<^verbatim>\<open>/upload\<close> (lines 151 to 170)\<close>

record response =
  body :: "byte list"
  status :: nat
  mimetype :: string

definition bytes_of :: "string \<Rightarrow> byte list" where
  "bytes_of cs = map (\<lambda>c. of_char c) cs"

definition latest :: "env \<Rightarrow> state \<Rightarrow> response" where
  "latest E s = \<lparr>body = imencode E (latest_frame s), status = 200, mimetype = ''image/jpeg''\<rparr>"

definition text_response :: "string \<Rightarrow> nat \<Rightarrow> response" where
  "text_response t code = \<lparr>body = bytes_of t, status = code, mimetype = ''text/html''\<rparr>"

definition upload :: "env \<Rightarrow> byte list \<Rightarrow> state \<Rightarrow> response \<times> event list \<times> state" where
  "upload E data s =
     (case imdecode E data of
        Inl e \<Rightarrow> (text_response ''Error'' 500, [Print (UploadFailed e)], s)
      | Inr None \<Rightarrow> (text_response ''Error'' 500, [], s)
      | Inr (Some frame) \<Rightarrow>
          (case publish frame s of (evs, s') \<Rightarrow> (text_response ''OK'' 200, evs, s')))"

subsection \<open>The alert functions (lines 58 to 92)\<close>

text \<open>The configuration read from the process environment: \<^verbatim>\<open>os.getenv\<close> gives \<^verbatim>\<open>None\<close> for a variable that is not set.\<close>

record config =
  EMAIL_USER :: "string option"
  EMAIL_PASS :: "string option"
  TO_EMAIL :: "string option"
  TWILIO_SID :: "string option"
  TWILIO_AUTH :: "string option"
  TWILIO_FROM :: "string option"
  TWILIO_TO :: "string option"

text \<open>
  What the thread of \<^verbatim>\<open>send_email\<close> meets: the file it opens, the check of
  \<^verbatim>\<open>MIMEImage\<close> on its bytes, and the SMTP server. Each call returns or raises.
\<close>

record mail_world =
  open_rb :: "string \<Rightarrow> exn + byte list"
  mime_image :: "byte list \<Rightarrow> exn + unit"
  smtp_connect :: "exn + unit"
  smtp_starttls :: "exn + unit"
  smtp_login :: "string option \<Rightarrow> string option \<Rightarrow> exn + unit"
  smtp_send_message :: "email \<Rightarrow> exn + unit"
  smtp_quit :: "exn + unit"

text \<open>The Twilio client class: its constructor, and \<^verbatim>\<open>messages.create\<close>, which returns the SID of the message.\<close>

record twilio_lib =
  client_new :: "string option \<Rightarrow> string option \<Rightarrow> exn + unit"
  messages_create :: "string \<Rightarrow> string option \<Rightarrow> string option \<Rightarrow> exn + string"

text \<open>
  The module global \<^verbatim>\<open>TwilioClient\<close> is \<^verbatim>\<open>None\<close> when the import at lines 11 to 14
  failed.
\<close>

record world =
  cfg :: config
  mail :: mail_world
  TwilioClient :: "twilio_lib option"

text \<open>One call inside a \<^verbatim>\<open>try\<close> block: its event, then the rest of the block unless it raised.\<close>

definition attempt ::
  "event \<Rightarrow> exn + 'a \<Rightarrow> ('a \<Rightarrow> (exn + unit) \<times> event list) \<Rightarrow> (exn + unit) \<times> event list" where
  "attempt ev r k =
     (case r of
        Inl e \<Rightarrow> (Inl e, [ev])
      | Inr v \<Rightarrow> (case k v of (r', evs) \<Rightarrow> (r', ev # evs)))"

text \<open>\<^verbatim>\<open>os.path.basename\<close>: what follows the last slash.\<close>

definition basename :: "string \<Rightarrow> string" where
  "basename p = rev (takeWhile (\<lambda>c. c \<noteq> CHR ''/'') (rev p))"

text \<open>Lines 60 to 75, the body of the \<^verbatim>\<open>try\<close> of \<^verbatim>\<open>send_email\<close>.\<close>

definition send_email_try :: "config \<Rightarrow> mail_world \<Rightarrow> string \<Rightarrow> (exn + unit) \<times> event list" where
  "send_email_try C M image_path =
     attempt (OpenRead image_path) (open_rb M image_path) (\<lambda>data.
     (case mime_image M data of
        Inl e \<Rightarrow> (Inl e, [])
      | Inr _ \<Rightarrow>
         (let m = \<lparr>subject = ''Hands-Up Alert!'', mail_from = EMAIL_USER C, mail_to = TO_EMAIL C,
                   body_text = ''Person detected with hands up! See attached image.'',
                   attachment_name = basename image_path, attachment = data\<rparr>
          in attempt SmtpConnect (smtp_connect M) (\<lambda>_.
             attempt SmtpStartTls (smtp_starttls M) (\<lambda>_.
             attempt (SmtpLogin (EMAIL_USER C) (EMAIL_PASS C))
                     (smtp_login M (EMAIL_USER C) (EMAIL_PASS C)) (\<lambda>_.
             attempt (SmtpSendMessage m) (smtp_send_message M m) (\<lambda>_.
             attempt SmtpQuit (smtp_quit M) (\<lambda>_.
             (Inr (), [Print EmailSent])))))))))"

text \<open>Lines 58 to 77: \<^verbatim>\<open>except Exception as e: print("Email failed:", e)\<close>.\<close>

definition send_email :: "config \<Rightarrow> mail_world \<Rightarrow> string \<Rightarrow> (exn + unit) \<times> event list" where
  "send_email C M image_path =
     (case send_email_try C M image_path of
        (Inl e, evs) \<Rightarrow> (Inr (), evs @ [Print (EmailFailed e)])
      | (Inr u, evs) \<Rightarrow> (Inr u, evs))"

text \<open>Lines 84 to 90, the body of the \<^verbatim>\<open>try\<close> of \<^verbatim>\<open>send_sms\<close>.\<close>

definition send_sms_try :: "config \<Rightarrow> twilio_lib \<Rightarrow> (exn + unit) \<times> event list" where
  "send_sms_try C T =
     attempt (TwilioNew (TWILIO_SID C) (TWILIO_AUTH C))
             (client_new T (TWILIO_SID C) (TWILIO_AUTH C)) (\<lambda>_.
     attempt (TwilioCreate ''Hands-Up detected!'' (TWILIO_FROM C) (TWILIO_TO C))
             (messages_create T ''Hands-Up detected!'' (TWILIO_FROM C) (TWILIO_TO C)) (\<lambda>sid.
     (Inr (), [Print (SmsSent sid)])))"

text \<open>Lines 79 to 92.\<close>

definition send_sms :: "config \<Rightarrow> twilio_lib option \<Rightarrow> (exn + unit) \<times> event list" where
  "send_sms C TC =
     (case TC of
        None \<Rightarrow> (Inr (), [Print TwilioNotInstalled])
      | Some T \<Rightarrow>
          (case send_sms_try C T of
             (Inl e, evs) \<Rightarrow> (Inr (), evs @ [Print (SmsFailed e)])
           | (Inr u, evs) \<Rightarrow> (Inr u, evs)))"

text \<open>What a thread started at line 129 or 130 runs.\<close>

definition run_thread :: "world \<Rightarrow> task \<Rightarrow> (exn + unit) \<times> event list" where
  "run_thread W t =
     (case t of
        SendEmail image_path \<Rightarrow> send_email (cfg W) (mail W) image_path
      | SendSms \<Rightarrow> send_sms (cfg W) (TwilioClient W))"

subsection \<open>The server: requests and turns of the worker, one after the other\<close>

text \<open>
  The module starts one thread that runs \<^verbatim>\<open>frame_worker\<close> (line 144); its loop has no
  \<^verbatim>\<open>try\<close>, so an exception that leaves \<^verbatim>\<open>process_frame\<close> ends the thread. A
  schedule lists the requests that arrive and the turns of the worker's loop, each turn
  with the clock it reads.
\<close>

datatype action = Upload "byte list" | WorkerTurn int | GetLatest

record server =
  st :: state
  worker_alive :: bool
  trace :: "event list"
  responses :: "response list"

definition boot :: server where
  "boot = \<lparr>st = init, worker_alive = True, trace = [], responses = []\<rparr>"

fun step :: "env \<Rightarrow> server \<Rightarrow> action \<Rightarrow> server" where
  "step E y (Upload data) =
     (case upload E data (st y) of
        (r, evs, s') \<Rightarrow> y\<lparr>st := s', trace := trace y @ evs, responses := responses y @ [r]\<rparr>)"
| "step E y (WorkerTurn ts) =
     (if worker_alive y
      then (case frame_worker_step E ts (st y) of
              (Inl e, evs, s') \<Rightarrow> y\<lparr>st := s', worker_alive := False, trace := trace y @ evs\<rparr>
            | (Inr u, evs, s') \<Rightarrow> y\<lparr>st := s', trace := trace y @ evs\<rparr>)
      else y)"
| "step E y GetLatest = y\<lparr>responses := responses y @ [latest E (st y)]\<rparr>"

definition run :: "env \<Rightarrow> action list \<Rightarrow> server \<Rightarrow> server" where
  "run E acts y = foldl (step E) y acts"

text \<open>
  A trace keeps the lock for memory operations only: between an acquire and its release
  there is nothing but a copy of, or an assignment to, one of the two globals.
\<close>

fun in_memory :: "event \<Rightarrow> bool" where
  "in_memory SlotCopy = True"
| "in_memory SlotAssign = True"
| "in_memory StoreAssign = True"
| "in_memory _ = False"

fun lock_discipline :: "bool \<Rightarrow> event list \<Rightarrow> bool" where
  "lock_discipline held [] = (\<not> held)"
| "lock_discipline held (LockAcquire # es) = (\<not> held \<and> lock_discipline True es)"
| "lock_discipline held (LockRelease # es) = (held \<and> lock_discipline False es)"
| "lock_discipline held (e # es) = ((\<not> held \<or> in_memory e) \<and> lock_discipline held es)"

subsection \<open>Notions used in the properties\<close>

text \<open>A run of uploads that all decode, seen at the slot: one \<open>publish\<close> after the other.\<close>

definition publish_all :: "frame list \<Rightarrow> state \<Rightarrow> state" where
  "publish_all fs s = foldl (\<lambda>s' f. snd (publish f s')) s fs"

text \<open>The threads a trace starts, and the image files it writes, in order.\<close>

fun alerts_started :: "event list \<Rightarrow> task list" where
  "alerts_started [] = []"
| "alerts_started (ThreadStart t # es) = t # alerts_started es"
| "alerts_started (e # es) = alerts_started es"

fun files_written :: "event list \<Rightarrow> (string \<times> frame) list" where
  "files_written [] = []"
| "files_written (ImWrite p f # es) = (p, f) # files_written es"
| "files_written (e # es) = files_written es"

text \<open>The schedule in which the same bytes are uploaded and then processed, once for each clock reading.\<close>

definition cycles :: "byte list \<Rightarrow> int list \<Rightarrow> action list" where
  "cycles data tss = concat (map (\<lambda>ts. [Upload data, WorkerTurn ts]) tss)"

subsection \<open>Concrete libraries and inputs for the examples\<close>

text \<open>
  A one-byte codec: the payload \<open>[b]\<close> is the 1\<times>1 image whose three channels are \<open>b\<close>,
  the empty payload makes the decoder raise, any other payload is not an image.
\<close>

definition toy_decode :: "byte list \<Rightarrow> exn + frame option" where
  "toy_decode data =
     (case data of
        [] \<Rightarrow> Inl (LibraryError ''empty buffer'')
      | [b] \<Rightarrow> Inr (Some [[[b, b, b]]])
      | _ \<Rightarrow> Inr None)"

definition toy_env :: "(frame \<Rightarrow> exn + landmark list option) \<Rightarrow> env" where
  "toy_env P =
     \<lparr>imdecode = toy_decode, imencode = (\<lambda>f. concat (concat f)), pose_process = P,
      draw_landmarks = (\<lambda>f lm. map (map (map (\<lambda>b. 255))) f)\<rparr>"

definition lm_at :: "real \<Rightarrow> landmark" where
  "lm_at v = \<lparr>lm_x = 0.5, lm_y = v, lm_z = 0, lm_visibility = 1\<rparr>"

text \<open>A pose of MediaPipe's 33 landmarks with the given heights of the shoulders and wrists.\<close>

definition pose_of :: "real \<Rightarrow> real \<Rightarrow> real \<Rightarrow> real \<Rightarrow> landmark list" where
  "pose_of lsy rsy lwy rwy =
     (replicate 33 (lm_at 0.5))[11 := lm_at lsy, 12 := lm_at rsy, 15 := lm_at lwy, 16 := lm_at rwy]"

definition never_found :: "frame \<Rightarrow> exn + landmark list option" where
  "never_found f = Inr None"

definition always_faults :: "frame \<Rightarrow> exn + landmark list option" where
  "always_faults f = Inl (LibraryError ''estimator fault'')"

definition always_hands_up :: "frame \<Rightarrow> exn + landmark list option" where
  "always_hands_up f = Inr (Some (pose_of 0.30 0.30 0.10 0.10))"

definition always_hands_down :: "frame \<Rightarrow> exn + landmark list option" where
  "always_hands_down f = Inr (Some (pose_of 0.30 0.30 0.10 0.35))"

text \<open>A world in which the image file is there, the mail server refuses the login, and Twilio is not installed.\<close>

definition no_config :: config where
  "no_config = \<lparr>EMAIL_USER = None, EMAIL_PASS = None, TO_EMAIL = None, TWILIO_SID = None,
                 TWILIO_AUTH = None, TWILIO_FROM = None, TWILIO_TO = None\<rparr>"

definition toy_mail :: mail_world where
  "toy_mail =
     \<lparr>open_rb = (\<lambda>p. Inr [1, 2, 3]), mime_image = (\<lambda>d. Inr ()), smtp_connect = Inr (),
      smtp_starttls = Inr (),
      smtp_login = (\<lambda>u p. case u of None \<Rightarrow> Inl (LibraryError ''login refused'') | Some _ \<Rightarrow> Inr ()),
      smtp_send_message = (\<lambda>m. Inr ()), smtp_quit = Inr ()\<rparr>"

text \<open>Settings with the Twilio credentials set and the two phone numbers not set.\<close>

definition half_config :: config where
  "half_config = \<lparr>EMAIL_USER = None, EMAIL_PASS = None, TO_EMAIL = None,
                   TWILIO_SID = Some ''AC1'', TWILIO_AUTH = Some ''token'', TWILIO_FROM = None,
                   TWILIO_TO = None\<rparr>"

text \<open>
  A Twilio client class whose constructor returns whatever the credentials are, and whose
  \<^verbatim>\<open>messages.create\<close> raises when a phone number is missing.
\<close>

definition toy_twilio :: twilio_lib where
  "toy_twilio =
     \<lparr>client_new = (\<lambda>sid auth. Inr ()),
      messages_create = (\<lambda>b f t. if f = None \<or> t = None
                                   then Inl (LibraryError ''a phone number is required'')
                                   else Inr ''SM1'')\<rparr>"

text \<open>A Twilio client class whose constructor raises.\<close>

definition refusing_twilio :: twilio_lib where
  "refusing_twilio =
     \<lparr>client_new = (\<lambda>sid auth. Inl (LibraryError ''client refused'')),
      messages_create = (\<lambda>b f t. Inr ''SM1'')\<rparr>"

definition toy_world :: "twilio_lib option \<Rightarrow> world" where
  "toy_world TC = \<lparr>cfg = no_config, mail = toy_mail, TwilioClient = TC\<rparr>"

section \<open>Facts about the model\<close>

lemma frame_path_100: "frame_path_of 100 = ''upload/frame_100.jpg''"
  by (simp add: frame_path_of_def path_join_def UPLOAD_FOLDER_def str_int_def str_nat.simps)

lemma frame_path_101: "frame_path_of 101 = ''upload/frame_101.jpg''"
  by (simp add: frame_path_of_def path_join_def UPLOAD_FOLDER_def str_int_def str_nat.simps)

lemma lm_y_at: "lm_y (lm_at v) = v"
  by (simp add: lm_at_def)

lemma get_joints_pose_of:
  "get_joints (pose_of a b c d) = Inr \<lparr>lw = lm_at c, rw = lm_at d, ls = lm_at a, rs = lm_at b\<rparr>"
  by (simp add: get_joints_def getitem_def pose_of_def eval_nat_numeral)

lemma alerts_started_append: "alerts_started (xs @ ys) = alerts_started xs @ alerts_started ys"
  by (induction xs rule: alerts_started.induct) simp_all

lemma files_written_append: "files_written (xs @ ys) = files_written xs @ files_written ys"
  by (induction xs rule: files_written.induct) simp_all

lemma run_Nil: "run E [] y = y"
  by (simp add: run_def)

lemma run_Cons: "run E (a # acts) y = run E acts (step E y a)"
  by (simp add: run_def)

lemma run_append: "run E (as @ bs) y = run E bs (run E as y)"
  by (simp add: run_def)

text \<open>The three ways \<^verbatim>\<open>process_frame\<close> can go.\<close>

lemma process_frame_fault:
  "pose_process E (cvtColor_BGR2RGB f) = Inl e \<Longrightarrow>
   process_frame E ts f s =
     (Inl e, [ImWrite (frame_path_of ts) f, PoseProcess (cvtColor_BGR2RGB f)], s)"
  by (simp add: process_frame_def)

lemma process_frame_none:
  "pose_process E (cvtColor_BGR2RGB f) = Inr None \<Longrightarrow>
   process_frame E ts f s =
     (Inr (), [ImWrite (frame_path_of ts) f, PoseProcess (cvtColor_BGR2RGB f),
               Print NoPoseDetected, StoreAssign], s\<lparr>latest_frame := f\<rparr>)"
  by (simp add: process_frame_def)

lemma process_frame_index:
  "pose_process E (cvtColor_BGR2RGB f) = Inr (Some lm) \<Longrightarrow> get_joints lm = Inl e \<Longrightarrow>
   process_frame E ts f s =
     (Inl e, [ImWrite (frame_path_of ts) f, PoseProcess (cvtColor_BGR2RGB f)], s)"
  by (simp add: process_frame_def)

lemma process_frame_found:
  "pose_process E (cvtColor_BGR2RGB f) = Inr (Some lm) \<Longrightarrow> get_joints lm = Inr j \<Longrightarrow>
   process_frame E ts f s =
     (Inr (),
      [ImWrite (frame_path_of ts) f, PoseProcess (cvtColor_BGR2RGB f),
       Print (Positions (lm_y (lw j)) (lm_y (ls j)) (lm_y (rw j)) (lm_y (rs j))),
       Print (HandsUpIs (hands_up j)), DrawLandmarks lm, StoreAssign] @
      (if hands_up j
       then [Print SendingAlert, ThreadStart (SendEmail (frame_path_of ts)), ThreadStart SendSms]
       else []),
      s\<lparr>latest_frame := draw_landmarks E f lm\<rparr>)"
  by (simp add: process_frame_def Let_def)

lemma process_frame_files:
  "files_written (fst (snd (process_frame E ts f s))) = [(frame_path_of ts, f)]"
  by (simp add: process_frame_def Let_def split: sum.splits option.splits)

lemma worker_step_taken:
  "latest_frame_to_process s = Some f \<Longrightarrow>
   frame_worker_step E ts s =
     (fst (process_frame E ts f (s\<lparr>latest_frame_to_process := None\<rparr>)),
      [LockAcquire, SlotCopy, SlotAssign, LockRelease] @
        fst (snd (process_frame E ts f (s\<lparr>latest_frame_to_process := None\<rparr>))),
      snd (snd (process_frame E ts f (s\<lparr>latest_frame_to_process := None\<rparr>))))"
  by (simp add: frame_worker_step_def take_if_present_def split: prod.splits)

lemma worker_step_idle:
  "latest_frame_to_process s = None \<Longrightarrow> frame_worker_step E ts s = (Inr (), [Sleep], s)"
  by (simp add: frame_worker_step_def take_if_present_def)

text \<open>Once the worker thread has ended, no request brings it back.\<close>

lemma step_dead:
  "\<not> worker_alive y \<Longrightarrow>
   \<not> worker_alive (step E y a) \<and>
   latest_frame (st (step E y a)) = latest_frame (st y) \<and>
   files_written (trace (step E y a)) = files_written (trace y) \<and>
   alerts_started (trace (step E y a)) = alerts_started (trace y)"
  by (cases a)
     (auto simp: upload_def publish_def files_written_append alerts_started_append
           split: sum.splits option.splits prod.splits)

lemma run_dead:
  "\<not> worker_alive y \<Longrightarrow>
   \<not> worker_alive (run E acts y) \<and>
   latest_frame (st (run E acts y)) = latest_frame (st y) \<and>
   files_written (trace (run E acts y)) = files_written (trace y) \<and>
   alerts_started (trace (run E acts y)) = alerts_started (trace y)"
proof (induction acts arbitrary: y)
  case Nil
  then show ?case by (simp add: run_Nil)
next
  case (Cons a acts)
  from step_dead [OF Cons.prems, of E a] Cons.IH [of "step E y a"]
  show ?case by (simp add: run_Cons)
qed

section \<open>The hands-up heuristic\<close>

lemma get_joints_ok:
  "16 < length lm \<Longrightarrow>
   get_joints lm = Inr \<lparr>lw = lm ! 15, rw = lm ! 16, ls = lm ! 11, rs = lm ! 12\<rparr>"
  by (simp add: get_joints_def getitem_def)

lemma hands_up_unfold:
  "hands_up j =
     (lm_y (lw j) + 0.2 * \<bar>lm_y (ls j) - lm_y (lw j)\<bar> < lm_y (ls j) \<and>
      lm_y (rw j) + 0.2 * \<bar>lm_y (rs j) - lm_y (rw j)\<bar> < lm_y (rs j))"
  by (simp add: hands_up_def margin_left_def margin_right_def)

text \<open>
  Claim C1. For every pose that has the four landmarks (a landmark list longer than the
  largest of the four indices, 16), the left and right wrist and shoulder are read at
  indices 15, 16, 11 and 12, and the heuristic is true exactly when both sides are raised,
  a side being raised when \<open>wrist.y + 0.2 * |shoulder.y - wrist.y| < shoulder.y\<close>. With
  both shoulders at 0.30 and both wrists at 0.10 it is true; with both wrists at 0.28 it
  is still true; with the left side raised and the right wrist at 0.35 under the right
  shoulder at 0.30 it is false. (Coordinates are real numbers here.)
\<close>

theorem hands_up_both_sides:
  "(\<forall>lm. 16 < length lm \<longrightarrow>
      (\<exists>j. get_joints lm = Inr j \<and> lw j = lm ! 15 \<and> rw j = lm ! 16 \<and> ls j = lm ! 11 \<and> rs j = lm ! 12 \<and>
        hands_up j =
          (lm_y (lw j) + 0.2 * \<bar>lm_y (ls j) - lm_y (lw j)\<bar> < lm_y (ls j) \<and>
           lm_y (rw j) + 0.2 * \<bar>lm_y (rs j) - lm_y (rw j)\<bar> < lm_y (rs j))))
   \<and> (\<forall>j. lm_y (ls j) = 0.30 \<and> lm_y (rs j) = 0.30 \<and> lm_y (lw j) = 0.10 \<and> lm_y (rw j) = 0.10
          \<longrightarrow> hands_up j)
   \<and> (\<forall>j. lm_y (ls j) = 0.30 \<and> lm_y (rs j) = 0.30 \<and> lm_y (lw j) = 0.28 \<and> lm_y (rw j) = 0.28
          \<longrightarrow> hands_up j)
   \<and> (\<forall>j. lm_y (lw j) + 0.2 * \<bar>lm_y (ls j) - lm_y (lw j)\<bar> < lm_y (ls j) \<and>
          lm_y (rs j) = 0.30 \<and> lm_y (rw j) = 0.35 \<longrightarrow> \<not> hands_up j)"
proof (intro conjI allI impI)
  fix lm :: "landmark list"
  assume "16 < length lm"
  then have "get_joints lm = Inr \<lparr>lw = lm ! 15, rw = lm ! 16, ls = lm ! 11, rs = lm ! 12\<rparr>"
    by (rule get_joints_ok)
  then show "\<exists>j. get_joints lm = Inr j \<and> lw j = lm ! 15 \<and> rw j = lm ! 16 \<and> ls j = lm ! 11 \<and> rs j = lm ! 12 \<and>
        hands_up j =
          (lm_y (lw j) + 0.2 * \<bar>lm_y (ls j) - lm_y (lw j)\<bar> < lm_y (ls j) \<and>
           lm_y (rw j) + 0.2 * \<bar>lm_y (rs j) - lm_y (rw j)\<bar> < lm_y (rs j))"
    using hands_up_unfold by auto
next
  fix j :: joints assume "lm_y (ls j) = 0.30 \<and> lm_y (rs j) = 0.30 \<and> lm_y (lw j) = 0.10 \<and> lm_y (rw j) = 0.10"
  then show "hands_up j" unfolding hands_up_unfold by (elim conjE, simp only:, simp)
next
  fix j :: joints assume "lm_y (ls j) = 0.30 \<and> lm_y (rs j) = 0.30 \<and> lm_y (lw j) = 0.28 \<and> lm_y (rw j) = 0.28"
  then show "hands_up j" unfolding hands_up_unfold by (elim conjE, simp only:, simp)
next
  fix j :: joints assume "lm_y (lw j) + 0.2 * \<bar>lm_y (ls j) - lm_y (lw j)\<bar> < lm_y (ls j) \<and>
          lm_y (rs j) = 0.30 \<and> lm_y (rw j) = 0.35"
  then show "\<not> hands_up j" unfolding hands_up_unfold by (elim conjE, simp only:, simp)
qed


theorem hands_up_both_sides_witness:
  "16 < length (pose_of 0.30 0.30 0.28 0.35) \<and>
   (\<exists>j. get_joints (pose_of 0.30 0.30 0.28 0.35) = Inr j \<and> lm_y (lw j) = 0.28 \<and> lm_y (rw j) = 0.35) \<and>
   hands_up \<lparr>lw = lm_at 0.10, rw = lm_at 0.10, ls = lm_at 0.30, rs = lm_at 0.30\<rparr> \<and>
   hands_up \<lparr>lw = lm_at 0.28, rw = lm_at 0.28, ls = lm_at 0.30, rs = lm_at 0.30\<rparr> \<and>
   \<not> hands_up \<lparr>lw = lm_at 0.10, rw = lm_at 0.35, ls = lm_at 0.30, rs = lm_at 0.30\<rparr>"
proof -
  have len: "16 < length (pose_of 0.30 0.30 0.28 0.35)"
    by (simp add: pose_of_def)
  have at: "pose_of 0.30 0.30 0.28 0.35 ! 15 = lm_at 0.28" "pose_of 0.30 0.30 0.28 0.35 ! 16 = lm_at 0.35"
    by (simp_all add: pose_of_def eval_nat_numeral)
  from hands_up_both_sides [THEN conjunct1, rule_format, OF len]
  have 1: "\<exists>j. get_joints (pose_of 0.30 0.30 0.28 0.35) = Inr j \<and> lm_y (lw j) = 0.28 \<and> lm_y (rw j) = 0.35"
    using at by (auto simp: lm_at_def)
  have 2: "hands_up \<lparr>lw = lm_at 0.10, rw = lm_at 0.10, ls = lm_at 0.30, rs = lm_at 0.30\<rparr>"
    by (rule hands_up_both_sides [THEN conjunct2, THEN conjunct1, rule_format]) (simp add: lm_at_def)
  have 3: "hands_up \<lparr>lw = lm_at 0.28, rw = lm_at 0.28, ls = lm_at 0.30, rs = lm_at 0.30\<rparr>"
    by (rule hands_up_both_sides [THEN conjunct2, THEN conjunct2, THEN conjunct1, rule_format])
       (simp add: lm_at_def)
  have 4: "\<not> hands_up \<lparr>lw = lm_at 0.10, rw = lm_at 0.35, ls = lm_at 0.30, rs = lm_at 0.30\<rparr>"
    by (rule hands_up_both_sides [THEN conjunct2, THEN conjunct2, THEN conjunct2, rule_format])
       (simp add: lm_at_def)
  from len 1 2 3 4 show ?thesis by blast
qed

section \<open>The frame slot\<close>

lemma publish_all_snoc: "publish_all (fs @ [f]) s = snd (publish f (publish_all fs s))"
  by (simp add: publish_all_def)

lemma publish_all_eq:
  "fs \<noteq> [] \<Longrightarrow> publish_all fs s = s\<lparr>latest_frame_to_process := Some (last fs)\<rparr>"
proof (induction fs rule: rev_induct)
  case Nil
  then show ?case by simp
next
  case (snoc f fs)
  show ?case
  proof (cases "fs = []")
    case True
    then show ?thesis by (simp add: publish_all_def publish_def)
  next
    case False
    with snoc.IH show ?thesis by (simp add: publish_all_snoc publish_def)
  qed
qed

text \<open>
  Claim C2. Publishing always succeeds and puts its frame into the slot whatever the slot
  held; an upload that decodes answers OK and publishes, whatever the state. After any
  non-empty run of publishes with no take between them, the slot holds the last frame
  published and nothing else changed; a take then returns exactly that frame, inside one
  critical section, and leaves the slot empty. A take on an empty slot signals empty and
  changes nothing, and after a take the slot is empty, so a second take signals empty.
\<close>

theorem frame_slot_freshest_wins:
  "(\<forall>f s. publish f s = ([LockAcquire, SlotAssign, LockRelease], s\<lparr>latest_frame_to_process := Some f\<rparr>))
   \<and> (\<forall>E d f s. imdecode E d = Inr (Some f) \<longrightarrow>
          upload E d s = (text_response ''OK'' 200, [LockAcquire, SlotAssign, LockRelease],
                          s\<lparr>latest_frame_to_process := Some f\<rparr>))
   \<and> (\<forall>fs s. fs \<noteq> [] \<longrightarrow>
          latest_frame_to_process (publish_all fs s) = Some (last fs) \<and>
          latest_frame (publish_all fs s) = latest_frame s \<and>
          take_if_present (publish_all fs s) =
            (Some (last fs), [LockAcquire, SlotCopy, SlotAssign, LockRelease],
             s\<lparr>latest_frame_to_process := None\<rparr>))
   \<and> (\<forall>s. latest_frame_to_process s = None \<longrightarrow> take_if_present s = (None, [], s))
   \<and> (\<forall>s. latest_frame_to_process (snd (snd (take_if_present s))) = None \<and>
            fst (take_if_present (snd (snd (take_if_present s)))) = None)"
proof (intro conjI allI impI)
  fix fs :: "frame list" and s :: state
  assume ne: "fs \<noteq> []"
  show "take_if_present (publish_all fs s) =
          (Some (last fs), [LockAcquire, SlotCopy, SlotAssign, LockRelease],
           s\<lparr>latest_frame_to_process := None\<rparr>)"
    by (simp add: publish_all_eq [OF ne] take_if_present_def)
  show "latest_frame_to_process (publish_all fs s) = Some (last fs)"
    by (simp add: publish_all_eq [OF ne])
  show "latest_frame (publish_all fs s) = latest_frame s"
    by (simp add: publish_all_eq [OF ne])
qed (simp_all add: publish_def upload_def take_if_present_def split: option.splits)

theorem frame_slot_freshest_wins_witness:
  "imdecode (toy_env never_found) [9] = Inr (Some [[[9, 9, 9]]]) \<and>
   upload (toy_env never_found) [9] (init\<lparr>latest_frame_to_process := Some [[[4, 4, 4]]]\<rparr>) =
     (text_response ''OK'' 200, [LockAcquire, SlotAssign, LockRelease],
      init\<lparr>latest_frame_to_process := Some [[[9, 9, 9]]]\<rparr>) \<and>
   [[[[1, 1, 1]]], [[[2, 2, 2]]], [[[3, 3, 3 :: byte]]]] \<noteq> [] \<and>
   take_if_present (publish_all [[[[1, 1, 1]]], [[[2, 2, 2]]], [[[3, 3, 3]]]] init) =
     (Some [[[3, 3, 3]]], [LockAcquire, SlotCopy, SlotAssign, LockRelease],
      init\<lparr>latest_frame_to_process := None\<rparr>) \<and>
   latest_frame_to_process init = None \<and>
   take_if_present init = (None, [], init)"
proof -
  have d: "imdecode (toy_env never_found) [9] = Inr (Some [[[9, 9, 9]]])"
    by (simp add: toy_env_def toy_decode_def)
  have ne: "[[[[1, 1, 1]]], [[[2, 2, 2]]], [[[3, 3, 3 :: byte]]]] \<noteq> []" by simp
  have e: "latest_frame_to_process init = None" by (simp add: init_def)
  note T = frame_slot_freshest_wins
  from T [THEN conjunct2, THEN conjunct1, rule_format, OF d]
       T [THEN conjunct2, THEN conjunct2, THEN conjunct1, rule_format, OF ne, of init]
       T [THEN conjunct2, THEN conjunct2, THEN conjunct2, THEN conjunct1, rule_format, OF e]
       d ne e
  show ?thesis by simp
qed

section \<open>A cycle in which the estimator raises\<close>

text \<open>
  Claim C3, as amended. When the estimator raises in a turn of a live worker that found a
  frame in the slot, the exception leaves \<^verbatim>\<open>process_frame\<close> and the loop of
  \<^verbatim>\<open>frame_worker\<close>: the turn ends with that exception after the frame was taken out
  of the slot and written to disk, and the worker thread is over. Whatever requests and
  turns follow, the worker stays dead, the latest frame is the one from before the turn,
  no further file is written (the frame is not tried again, and no later frame is
  processed) and no alert thread is started.
\<close>

theorem estimator_fault_ends_worker:
  "latest_frame_to_process (st y) = Some f \<Longrightarrow> worker_alive y \<Longrightarrow>
   pose_process E (cvtColor_BGR2RGB f) = Inl e \<Longrightarrow>
   frame_worker_step E ts (st y) =
     (Inl e,
      [LockAcquire, SlotCopy, SlotAssign, LockRelease,
       ImWrite (frame_path_of ts) f, PoseProcess (cvtColor_BGR2RGB f)],
      (st y)\<lparr>latest_frame_to_process := None\<rparr>)
   \<and> \<not> worker_alive (run E acts (step E y (WorkerTurn ts)))
   \<and> latest_frame (st (run E acts (step E y (WorkerTurn ts)))) = latest_frame (st y)
   \<and> files_written (trace (run E acts (step E y (WorkerTurn ts)))) =
       files_written (trace y) @ [(frame_path_of ts, f)]
   \<and> alerts_started (trace (run E acts (step E y (WorkerTurn ts)))) = alerts_started (trace y)"
proof -
  assume slot: "latest_frame_to_process (st y) = Some f" and alive: "worker_alive y"
    and fault: "pose_process E (cvtColor_BGR2RGB f) = Inl e"
  have w: "frame_worker_step E ts (st y) =
     (Inl e,
      [LockAcquire, SlotCopy, SlotAssign, LockRelease,
       ImWrite (frame_path_of ts) f, PoseProcess (cvtColor_BGR2RGB f)],
      (st y)\<lparr>latest_frame_to_process := None\<rparr>)"
    by (simp add: worker_step_taken [OF slot] process_frame_fault [OF fault])
  let ?y = "step E y (WorkerTurn ts)"
  have dead: "\<not> worker_alive ?y" using alive w by simp
  have after: "latest_frame (st ?y) = latest_frame (st y)"
    "files_written (trace ?y) = files_written (trace y) @ [(frame_path_of ts, f)]"
    "alerts_started (trace ?y) = alerts_started (trace y)"
    using alive w by (simp_all add: files_written_append alerts_started_append)
  from run_dead [OF dead, of E acts] w after show ?thesis by simp
qed

text \<open>
  The claim as stated fails: with an estimator that raises, one upload and one turn leave
  the worker dead and the latest frame still the black start image, where an estimator
  that finds no pose leaves the worker alive and stores the frame; and a second upload
  is processed after a no-pose turn but never after a fault.
\<close>

theorem estimator_fault_counterexample:
  "worker_alive (run (toy_env always_faults) [Upload [7], WorkerTurn 100] boot) = False \<and>
   latest_frame (st (run (toy_env always_faults) [Upload [7], WorkerTurn 100] boot)) =
     np_zeros 480 640 3 \<and>
   worker_alive (run (toy_env never_found) [Upload [7], WorkerTurn 100] boot) = True \<and>
   latest_frame (st (run (toy_env never_found) [Upload [7], WorkerTurn 100] boot)) = [[[7, 7, 7]]] \<and>
   files_written (trace (run (toy_env always_faults)
      [Upload [7], WorkerTurn 100, Upload [8], WorkerTurn 101] boot)) =
     [(''upload/frame_100.jpg'', [[[7, 7, 7]]])] \<and>
   files_written (trace (run (toy_env never_found)
      [Upload [7], WorkerTurn 100, Upload [8], WorkerTurn 101] boot)) =
     [(''upload/frame_100.jpg'', [[[7, 7, 7]]]), (''upload/frame_101.jpg'', [[[8, 8, 8]]])]"
  by (simp add: run_def boot_def init_def upload_def publish_def toy_env_def toy_decode_def
        frame_worker_step_def take_if_present_def process_frame_def cvtColor_BGR2RGB_def
        always_faults_def never_found_def frame_path_100 frame_path_101)

theorem estimator_fault_ends_worker_witness:
  "latest_frame_to_process (st (run (toy_env always_faults) [Upload [7]] boot)) = Some [[[7, 7, 7]]] \<and>
   worker_alive (run (toy_env always_faults) [Upload [7]] boot) \<and>
   pose_process (toy_env always_faults) (cvtColor_BGR2RGB [[[7, 7, 7]]]) =
     Inl (LibraryError ''estimator fault'') \<and>
   \<not> worker_alive (run (toy_env always_faults) [Upload [8], WorkerTurn 101]
        (step (toy_env always_faults) (run (toy_env always_faults) [Upload [7]] boot) (WorkerTurn 100))) \<and>
   files_written (trace (run (toy_env always_faults) [Upload [8], WorkerTurn 101]
        (step (toy_env always_faults) (run (toy_env always_faults) [Upload [7]] boot) (WorkerTurn 100)))) =
     [(''upload/frame_100.jpg'', [[[7, 7, 7]]])]"
proof -
  let ?E = "toy_env always_faults"
  let ?y = "run ?E [Upload [7]] boot"
  have a: "latest_frame_to_process (st ?y) = Some [[[7, 7, 7]]]"
    by (simp add: run_def boot_def init_def upload_def publish_def toy_env_def toy_decode_def)
  have b: "worker_alive ?y"
    by (simp add: run_def boot_def init_def upload_def publish_def toy_env_def toy_decode_def)
  have c: "pose_process ?E (cvtColor_BGR2RGB [[[7, 7, 7]]]) = Inl (LibraryError ''estimator fault'')"
    by (simp add: toy_env_def always_faults_def)
  have d: "files_written (trace ?y) = []"
    by (simp add: run_def boot_def init_def upload_def publish_def toy_env_def toy_decode_def)
  note T = estimator_fault_ends_worker [OF a b c, of 100 "[Upload [8], WorkerTurn 101]"]
  have dead: "\<not> worker_alive (run ?E [Upload [8], WorkerTurn 101] (step ?E ?y (WorkerTurn 100)))"
    by (rule T [THEN conjunct2, THEN conjunct1])
  have files: "files_written (trace (run ?E [Upload [8], WorkerTurn 101] (step ?E ?y (WorkerTurn 100)))) =
      [(''upload/frame_100.jpg'', [[[7, 7, 7]]])]"
    using T [THEN conjunct2, THEN conjunct2, THEN conjunct2, THEN conjunct1]
    by (simp only: d frame_path_100 append_Nil)
  from a b c dead files show ?thesis by (intro conjI)
qed

section \<open>A cycle with no pose\<close>

text \<open>
  Claim C4. When the estimator finds no pose, \<^verbatim>\<open>process_frame\<close> returns normally
  after writing the file, calling the estimator, printing one line and storing the frame
  it was given, unchanged, as the latest frame: no landmarks are drawn, no hands-up
  result is computed or printed, and no alert thread is started.
\<close>

theorem no_pose_stores_raw_frame:
  "pose_process E (cvtColor_BGR2RGB frame) = Inr None \<Longrightarrow>
   process_frame E ts frame s =
     (Inr (),
      [ImWrite (frame_path_of ts) frame, PoseProcess (cvtColor_BGR2RGB frame),
       Print NoPoseDetected, StoreAssign],
      s\<lparr>latest_frame := frame\<rparr>)
   \<and> alerts_started (fst (snd (process_frame E ts frame s))) = []
   \<and> (\<forall>b. Print (HandsUpIs b) \<notin> set (fst (snd (process_frame E ts frame s))))
   \<and> (\<forall>lm. DrawLandmarks lm \<notin> set (fst (snd (process_frame E ts frame s))))"
  by (simp add: process_frame_def)

theorem no_pose_stores_raw_frame_witness:
  "pose_process (toy_env never_found) (cvtColor_BGR2RGB [[[1, 2, 3]]]) = Inr None \<and>
   process_frame (toy_env never_found) 100 [[[1, 2, 3]]] init =
     (Inr (),
      [ImWrite ''upload/frame_100.jpg'' [[[1, 2, 3]]], PoseProcess [[[3, 2, 1]]],
       Print NoPoseDetected, StoreAssign],
      init\<lparr>latest_frame := [[[1, 2, 3]]]\<rparr>)"
proof -
  have h: "pose_process (toy_env never_found) (cvtColor_BGR2RGB [[[1, 2, 3]]]) = Inr None"
    by (simp add: toy_env_def never_found_def)
  have p: "frame_path_of 100 = ''upload/frame_100.jpg''"
    by (simp add: frame_path_of_def path_join_def UPLOAD_FOLDER_def str_int_def str_nat.simps)
  from no_pose_stores_raw_frame [OF h, of 100 init] h p show ?thesis
    by (simp add: cvtColor_BGR2RGB_def)
qed

section \<open>The files written\<close>

lemma process_frame_starts:
  "\<exists>evs. fst (snd (process_frame E ts f s)) =
          ImWrite (frame_path_of ts) f # PoseProcess (cvtColor_BGR2RGB f) # evs \<and>
          files_written evs = []"
  by (simp add: process_frame_def Let_def split: sum.splits option.splits)

lemma frame_path_in_upload_folder:
  "\<exists>stem. frame_path_of ts = path_join UPLOAD_FOLDER (stem @ ''.jpg'')"
  unfolding frame_path_of_def by (rule exI [of _ "''frame_'' @ str_int ts"]) simp

text \<open>
  Claim C5, as amended. The image file is written by \<^verbatim>\<open>process_frame\<close>, not by
  \<^verbatim>\<open>upload\<close>: an upload writes no file, and a turn of the worker that finds the slot
  empty writes none. A turn that takes a frame from the slot writes exactly that frame,
  once, to a \<^verbatim>\<open>.jpg\<close> file in the upload directory, as the first thing it does after
  leaving the critical section and immediately before it calls the estimator, whatever
  the estimator then answers (a pose with or without hands up, no pose, or a fault).
\<close>

theorem taken_frame_is_written:
  "(\<forall>E data s. files_written (fst (snd (upload E data s))) = [])
   \<and> (\<forall>E ts f s. \<exists>stem evs.
          fst (snd (process_frame E ts f s)) =
            ImWrite (path_join UPLOAD_FOLDER (stem @ ''.jpg'')) f #
            PoseProcess (cvtColor_BGR2RGB f) # evs \<and>
          files_written evs = [])
   \<and> (\<forall>E ts f s. latest_frame_to_process s = Some f \<longrightarrow>
          (\<exists>stem evs.
             fst (snd (frame_worker_step E ts s)) =
               [LockAcquire, SlotCopy, SlotAssign, LockRelease,
                ImWrite (path_join UPLOAD_FOLDER (stem @ ''.jpg'')) f,
                PoseProcess (cvtColor_BGR2RGB f)] @ evs \<and>
             files_written evs = []))
   \<and> (\<forall>E ts s. latest_frame_to_process s = None \<longrightarrow>
          files_written (fst (snd (frame_worker_step E ts s))) = [])"
proof (intro conjI allI impI)
  fix E :: env and data :: "byte list" and s :: state
  show "files_written (fst (snd (upload E data s))) = []"
    by (simp add: upload_def publish_def split: sum.splits option.splits)
next
  fix E :: env and ts :: int and f :: frame and s :: state
  obtain stem where p: "frame_path_of ts = path_join UPLOAD_FOLDER (stem @ ''.jpg'')"
    using frame_path_in_upload_folder by blast
  obtain evs where e: "fst (snd (process_frame E ts f s)) =
      ImWrite (frame_path_of ts) f # PoseProcess (cvtColor_BGR2RGB f) # evs"
    "files_written evs = []"
    using process_frame_starts by blast
  from e show "\<exists>stem evs.
          fst (snd (process_frame E ts f s)) =
            ImWrite (path_join UPLOAD_FOLDER (stem @ ''.jpg'')) f #
            PoseProcess (cvtColor_BGR2RGB f) # evs \<and>
          files_written evs = []"
    unfolding p by blast
next
  fix E :: env and ts :: int and f :: frame and s :: state
  assume slot: "latest_frame_to_process s = Some f"
  obtain stem where p: "frame_path_of ts = path_join UPLOAD_FOLDER (stem @ ''.jpg'')"
    using frame_path_in_upload_folder by blast
  obtain evs where e:
    "fst (snd (process_frame E ts f (s\<lparr>latest_frame_to_process := None\<rparr>))) =
       ImWrite (frame_path_of ts) f # PoseProcess (cvtColor_BGR2RGB f) # evs"
    "files_written evs = []"
    using process_frame_starts by blast
  have "fst (snd (frame_worker_step E ts s)) =
          [LockAcquire, SlotCopy, SlotAssign, LockRelease,
           ImWrite (path_join UPLOAD_FOLDER (stem @ ''.jpg'')) f,
           PoseProcess (cvtColor_BGR2RGB f)] @ evs"
    by (simp add: worker_step_taken [OF slot] e(1) p)
  with e(2) show "\<exists>stem evs.
             fst (snd (frame_worker_step E ts s)) =
               [LockAcquire, SlotCopy, SlotAssign, LockRelease,
                ImWrite (path_join UPLOAD_FOLDER (stem @ ''.jpg'')) f,
                PoseProcess (cvtColor_BGR2RGB f)] @ evs \<and>
             files_written evs = []"
    by blast
next
  fix E :: env and ts :: int and s :: state
  assume "latest_frame_to_process s = None"
  then show "files_written (fst (snd (frame_worker_step E ts s))) = []"
    by (simp add: worker_step_idle)
qed

text \<open>
  The claim as stated fails in both of its parts. Two uploads that both decode and are
  both answered with 200, followed by two turns of the worker, leave one file, that of
  the second upload: the first frame was replaced in the slot before the worker took it
  and is written nowhere. And two frames that are each uploaded and processed within the
  same second are written to one and the same path, so they do not get a file each.
\<close>

theorem unprocessed_upload_counterexample:
  "map status (responses (run (toy_env never_found)
      [Upload [1], Upload [2], WorkerTurn 100, WorkerTurn 101] boot)) = [200, 200] \<and>
   files_written (trace (run (toy_env never_found)
      [Upload [1], Upload [2], WorkerTurn 100, WorkerTurn 101] boot)) =
     [(''upload/frame_100.jpg'', [[[2, 2, 2]]])] \<and>
   files_written (trace (run (toy_env never_found)
      [Upload [1], WorkerTurn 100, Upload [2], WorkerTurn 100] boot)) =
     [(''upload/frame_100.jpg'', [[[1, 1, 1]]]), (''upload/frame_100.jpg'', [[[2, 2, 2]]])]"
  by (simp add: run_def boot_def init_def upload_def publish_def toy_env_def toy_decode_def
        frame_worker_step_def take_if_present_def process_frame_def cvtColor_BGR2RGB_def
        never_found_def frame_path_100 text_response_def)

theorem taken_frame_is_written_witness:
  "latest_frame_to_process (init\<lparr>latest_frame_to_process := Some [[[5, 4, 3]]]\<rparr>) = Some [[[5, 4, 3]]] \<and>
   (\<exists>stem evs.
      fst (snd (frame_worker_step (toy_env always_faults) 100
        (init\<lparr>latest_frame_to_process := Some [[[5, 4, 3]]]\<rparr>))) =
        [LockAcquire, SlotCopy, SlotAssign, LockRelease,
         ImWrite (''upload/'' @ stem @ ''.jpg'') [[[5, 4, 3]]], PoseProcess [[[3, 4, 5]]]] @ evs \<and>
      files_written evs = []) \<and>
   latest_frame_to_process init = None \<and>
   files_written (fst (snd (frame_worker_step (toy_env always_faults) 100 init))) = []"
proof -
  have a: "latest_frame_to_process (init\<lparr>latest_frame_to_process := Some [[[5, 4, 3]]]\<rparr>) =
             Some [[[5, 4, 3]]]"
    by simp
  have b: "latest_frame_to_process init = None"
    by (simp add: init_def)
  have c: "cvtColor_BGR2RGB [[[5, 4, 3]]] = [[[3, 4, 5]]]"
    by (simp add: cvtColor_BGR2RGB_def)
  have d: "\<And>stem. path_join UPLOAD_FOLDER (stem @ ''.jpg'') = ''upload/'' @ stem @ ''.jpg''"
    by (simp add: path_join_def UPLOAD_FOLDER_def)
  note T = taken_frame_is_written
  from T [THEN conjunct2, THEN conjunct2, THEN conjunct1, rule_format, OF a,
          of "toy_env always_faults" 100]
  have 1: "\<exists>stem evs.
      fst (snd (frame_worker_step (toy_env always_faults) 100
        (init\<lparr>latest_frame_to_process := Some [[[5, 4, 3]]]\<rparr>))) =
        [LockAcquire, SlotCopy, SlotAssign, LockRelease,
         ImWrite (''upload/'' @ stem @ ''.jpg'') [[[5, 4, 3]]], PoseProcess [[[3, 4, 5]]]] @ evs \<and>
      files_written evs = []"
    by (simp only: c d)
  have 2: "files_written (fst (snd (frame_worker_step (toy_env always_faults) 100 init))) = []"
    by (rule T [THEN conjunct2, THEN conjunct2, THEN conjunct2, rule_format, OF b])
  from a 1 b 2 show ?thesis by (intro conjI)
qed

section \<open>An upload that does not decode\<close>

text \<open>
  Claim C6. When the decoder raises or returns no image, \<^verbatim>\<open>upload\<close> answers
  \<^verbatim>\<open>"Error", 500\<close> and returns the state it was given: the slot and the latest frame
  are unchanged, and the only effect is the line printed when the decoder raised.
\<close>

theorem bad_upload_leaves_state:
  "imdecode E data = Inl e \<or> imdecode E data = Inr None \<Longrightarrow>
   fst (upload E data s) = text_response ''Error'' 500 \<and>
   status (fst (upload E data s)) = 500 \<and>
   snd (snd (upload E data s)) = s \<and>
   latest_frame_to_process (snd (snd (upload E data s))) = latest_frame_to_process s \<and>
   latest_frame (snd (snd (upload E data s))) = latest_frame s \<and>
   (fst (snd (upload E data s)) = [] \<or> fst (snd (upload E data s)) = [Print (UploadFailed e)])"
  by (auto simp: upload_def text_response_def)

theorem bad_upload_leaves_state_witness:
  "(imdecode (toy_env never_found) [] = Inl (LibraryError ''empty buffer'') \<or>
    imdecode (toy_env never_found) [] = Inr None) \<and>
   upload (toy_env never_found) [] init =
     (text_response ''Error'' 500, [Print (UploadFailed (LibraryError ''empty buffer''))], init) \<and>
   (imdecode (toy_env never_found) [1, 2] = Inl (LibraryError ''empty buffer'') \<or>
    imdecode (toy_env never_found) [1, 2] = Inr None) \<and>
   upload (toy_env never_found) [1, 2] init = (text_response ''Error'' 500, [], init)"
proof -
  have a: "imdecode (toy_env never_found) [] = Inl (LibraryError ''empty buffer'') \<or>
           imdecode (toy_env never_found) [] = Inr None"
    by (simp add: toy_env_def toy_decode_def)
  have b: "imdecode (toy_env never_found) [1, 2] = Inl (LibraryError ''empty buffer'') \<or>
           imdecode (toy_env never_found) [1, 2] = Inr None"
    by (simp add: toy_env_def toy_decode_def)
  have c: "fst (snd (upload (toy_env never_found) [] init)) =
             [Print (UploadFailed (LibraryError ''empty buffer''))]"
    by (simp add: upload_def toy_env_def toy_decode_def)
  have d: "fst (snd (upload (toy_env never_found) [1, 2] init)) = []"
    by (simp add: upload_def toy_env_def toy_decode_def)
  from bad_upload_leaves_state [OF a, of init] bad_upload_leaves_state [OF b, of init] a b c d
  show ?thesis by (metis prod.collapse)
qed

section \<open>Alerts are started on every hands-up cycle\<close>

lemma hands_up_turn:
  assumes dec: "imdecode E data = Inr (Some f)"
    and pose: "pose_process E (cvtColor_BGR2RGB f) = Inr (Some lm)"
    and joints: "get_joints lm = Inr j"
    and alive: "worker_alive y"
  shows "worker_alive (run E [Upload data, WorkerTurn ts] y) \<and>
         alerts_started (trace (run E [Upload data, WorkerTurn ts] y)) =
           alerts_started (trace y) @
           (if hands_up j then [SendEmail (frame_path_of ts), SendSms] else [])"
proof -
  define y1 where "y1 = step E y (Upload data)"
  have up: "st y1 = (st y)\<lparr>latest_frame_to_process := Some f\<rparr>"
    "trace y1 = trace y @ [LockAcquire, SlotAssign, LockRelease]" "worker_alive y1"
    using dec alive by (simp_all add: y1_def upload_def publish_def)
  have slot: "latest_frame_to_process (st y1) = Some f"
    by (simp add: up(1))
  have w: "fst (frame_worker_step E ts (st y1)) = Inr ()"
    "alerts_started (fst (snd (frame_worker_step E ts (st y1)))) =
       (if hands_up j then [SendEmail (frame_path_of ts), SendSms] else [])"
    by (simp_all add: worker_step_taken [OF slot] process_frame_found [OF pose joints]
          alerts_started_append)
  obtain evs s' where r: "frame_worker_step E ts (st y1) = (Inr (), evs, s')"
    using w(1) by (metis prod.collapse)
  have "run E [Upload data, WorkerTurn ts] y = step E y1 (WorkerTurn ts)"
    by (simp add: run_def y1_def)
  also have "\<dots> = y1\<lparr>st := s', trace := trace y1 @ evs\<rparr>"
    using up(3) r by simp
  finally have fin: "run E [Upload data, WorkerTurn ts] y = y1\<lparr>st := s', trace := trace y1 @ evs\<rparr>" .
  from w(2) r have "alerts_started evs =
      (if hands_up j then [SendEmail (frame_path_of ts), SendSms] else [])" by simp
  then show ?thesis
    unfolding fin using up(2,3) by (simp add: alerts_started_append)
qed

lemma hands_up_cycles:
  assumes dec: "imdecode E data = Inr (Some f)"
    and pose: "pose_process E (cvtColor_BGR2RGB f) = Inr (Some lm)"
    and joints: "get_joints lm = Inr j"
    and up: "hands_up j"
  shows "worker_alive y \<Longrightarrow>
         alerts_started (trace (run E (cycles data tss) y)) =
           alerts_started (trace y) @
           concat (map (\<lambda>ts. [SendEmail (frame_path_of ts), SendSms]) tss)"
proof (induction tss arbitrary: y)
  case Nil
  then show ?case by (simp add: cycles_def run_Nil)
next
  case (Cons ts tss)
  have split: "cycles data (ts # tss) = [Upload data, WorkerTurn ts] @ cycles data tss"
    by (simp add: cycles_def)
  from hands_up_turn [OF dec pose joints Cons.prems, of ts] up
  have one: "worker_alive (run E [Upload data, WorkerTurn ts] y)"
    "alerts_started (trace (run E [Upload data, WorkerTurn ts] y)) =
       alerts_started (trace y) @ [SendEmail (frame_path_of ts), SendSms]"
    by simp_all
  have "run E (cycles data (ts # tss)) y =
        run E (cycles data tss) (run E [Upload data, WorkerTurn ts] y)"
    by (simp only: split run_append)
  with Cons.IH [OF one(1)] one(2) show ?case
    by simp
qed

text \<open>
  Claim C7. A cycle with a pose starts the two alert threads, one for the mail with the
  path of the file just written and one for the SMS, exactly when the heuristic is true,
  as the last thing it does, and returns without running or joining them; a cycle with no
  pose starts none. What a cycle starts does not depend on the state it runs in, so
  nothing is batched, deduplicated or limited: uploading and processing a hands-up frame
  once for each of any list of clock readings starts one mail thread and one SMS thread
  for each of them, also for equal readings.
\<close>

theorem alert_on_every_hands_up_cycle:
  "(\<forall>E ts f s lm j. pose_process E (cvtColor_BGR2RGB f) = Inr (Some lm) \<and> get_joints lm = Inr j \<longrightarrow>
      fst (process_frame E ts f s) = Inr () \<and>
      alerts_started (fst (snd (process_frame E ts f s))) =
        (if hands_up j then [SendEmail (frame_path_of ts), SendSms] else []) \<and>
      (hands_up j \<longrightarrow>
        (\<exists>evs. fst (snd (process_frame E ts f s)) =
           evs @ [ThreadStart (SendEmail (frame_path_of ts)), ThreadStart SendSms])))
   \<and> (\<forall>E ts f s. pose_process E (cvtColor_BGR2RGB f) = Inr None \<longrightarrow>
        alerts_started (fst (snd (process_frame E ts f s))) = [])
   \<and> (\<forall>E ts f s s'. fst (snd (process_frame E ts f s)) = fst (snd (process_frame E ts f s')))
   \<and> (\<forall>E data f lm j tss.
        imdecode E data = Inr (Some f) \<and> pose_process E (cvtColor_BGR2RGB f) = Inr (Some lm) \<and>
        get_joints lm = Inr j \<and> hands_up j \<longrightarrow>
        alerts_started (trace (run E (cycles data tss) boot)) =
          concat (map (\<lambda>ts. [SendEmail (frame_path_of ts), SendSms]) tss))"
proof (intro conjI allI impI)
  fix E :: env and ts :: int and f :: frame and s :: state and lm :: "landmark list" and j :: joints
  assume h: "pose_process E (cvtColor_BGR2RGB f) = Inr (Some lm) \<and> get_joints lm = Inr j"
  then have pf: "process_frame E ts f s =
     (Inr (),
      [ImWrite (frame_path_of ts) f, PoseProcess (cvtColor_BGR2RGB f),
       Print (Positions (lm_y (lw j)) (lm_y (ls j)) (lm_y (rw j)) (lm_y (rs j))),
       Print (HandsUpIs (hands_up j)), DrawLandmarks lm, StoreAssign] @
      (if hands_up j
       then [Print SendingAlert, ThreadStart (SendEmail (frame_path_of ts)), ThreadStart SendSms]
       else []),
      s\<lparr>latest_frame := draw_landmarks E f lm\<rparr>)"
    by (simp add: process_frame_found)
  show "fst (process_frame E ts f s) = Inr ()"
    by (simp add: pf)
  show "alerts_started (fst (snd (process_frame E ts f s))) =
        (if hands_up j then [SendEmail (frame_path_of ts), SendSms] else [])"
    by (simp add: pf)
  assume "hands_up j"
  then have "fst (snd (process_frame E ts f s)) =
      [ImWrite (frame_path_of ts) f, PoseProcess (cvtColor_BGR2RGB f),
       Print (Positions (lm_y (lw j)) (lm_y (ls j)) (lm_y (rw j)) (lm_y (rs j))),
       Print (HandsUpIs (hands_up j)), DrawLandmarks lm, StoreAssign, Print SendingAlert] @
      [ThreadStart (SendEmail (frame_path_of ts)), ThreadStart SendSms]"
    by (simp add: pf)
  then show "\<exists>evs. fst (snd (process_frame E ts f s)) =
           evs @ [ThreadStart (SendEmail (frame_path_of ts)), ThreadStart SendSms]"
    by blast
next
  fix E :: env and ts :: int and f :: frame and s :: state
  assume "pose_process E (cvtColor_BGR2RGB f) = Inr None"
  then show "alerts_started (fst (snd (process_frame E ts f s))) = []"
    by (simp add: process_frame_none)
next
  fix E :: env and ts :: int and f :: frame and s s' :: state
  show "fst (snd (process_frame E ts f s)) = fst (snd (process_frame E ts f s'))"
    by (simp add: process_frame_def Let_def split: sum.splits option.splits)
next
  fix E :: env and data :: "byte list" and f :: frame and lm :: "landmark list" and j :: joints
    and tss :: "int list"
  assume h: "imdecode E data = Inr (Some f) \<and> pose_process E (cvtColor_BGR2RGB f) = Inr (Some lm) \<and>
        get_joints lm = Inr j \<and> hands_up j"
  have "worker_alive boot" "trace boot = []"
    by (simp_all add: boot_def)
  with hands_up_cycles [of E data f lm j boot tss] h
  show "alerts_started (trace (run E (cycles data tss) boot)) =
          concat (map (\<lambda>ts. [SendEmail (frame_path_of ts), SendSms]) tss)"
    by simp
qed


theorem alert_on_every_hands_up_cycle_witness:
  "imdecode (toy_env always_hands_up) [7] = Inr (Some [[[7, 7, 7]]]) \<and>
   pose_process (toy_env always_hands_up) (cvtColor_BGR2RGB [[[7, 7, 7]]]) =
     Inr (Some (pose_of 0.30 0.30 0.10 0.10)) \<and>
   get_joints (pose_of 0.30 0.30 0.10 0.10) =
     Inr \<lparr>lw = lm_at 0.10, rw = lm_at 0.10, ls = lm_at 0.30, rs = lm_at 0.30\<rparr> \<and>
   hands_up \<lparr>lw = lm_at 0.10, rw = lm_at 0.10, ls = lm_at 0.30, rs = lm_at 0.30\<rparr> \<and>
   alerts_started (trace (run (toy_env always_hands_up) (cycles [7] [100, 100, 101]) boot)) =
     [SendEmail ''upload/frame_100.jpg'', SendSms, SendEmail ''upload/frame_100.jpg'', SendSms,
      SendEmail ''upload/frame_101.jpg'', SendSms] \<and>
   pose_process (toy_env always_hands_down) (cvtColor_BGR2RGB [[[7, 7, 7]]]) =
     Inr (Some (pose_of 0.30 0.30 0.10 0.35)) \<and>
   get_joints (pose_of 0.30 0.30 0.10 0.35) =
     Inr \<lparr>lw = lm_at 0.10, rw = lm_at 0.35, ls = lm_at 0.30, rs = lm_at 0.30\<rparr> \<and>
   \<not> hands_up \<lparr>lw = lm_at 0.10, rw = lm_at 0.35, ls = lm_at 0.30, rs = lm_at 0.30\<rparr> \<and>
   alerts_started (fst (snd (process_frame (toy_env always_hands_down) 100 [[[7, 7, 7]]] init))) = [] \<and>
   pose_process (toy_env never_found) (cvtColor_BGR2RGB [[[7, 7, 7]]]) = Inr None \<and>
   alerts_started (fst (snd (process_frame (toy_env never_found) 100 [[[7, 7, 7]]] init))) = []"
proof -
  let ?up = "\<lparr>lw = lm_at 0.10, rw = lm_at 0.10, ls = lm_at 0.30, rs = lm_at 0.30\<rparr>"
  let ?down = "\<lparr>lw = lm_at 0.10, rw = lm_at 0.35, ls = lm_at 0.30, rs = lm_at 0.30\<rparr>"
  have dec: "imdecode (toy_env always_hands_up) [7] = Inr (Some [[[7, 7, 7]]])"
    by (simp add: toy_env_def toy_decode_def)
  have pose: "pose_process (toy_env always_hands_up) (cvtColor_BGR2RGB [[[7, 7, 7]]]) =
     Inr (Some (pose_of 0.30 0.30 0.10 0.10))"
    by (simp add: toy_env_def always_hands_up_def)
  have joints: "get_joints (pose_of 0.30 0.30 0.10 0.10) = Inr ?up"
    by (rule get_joints_pose_of)
  have up: "hands_up ?up"
    by (simp add: hands_up_def margin_left_def margin_right_def lm_at_def)
  have pose': "pose_process (toy_env always_hands_down) (cvtColor_BGR2RGB [[[7, 7, 7]]]) =
     Inr (Some (pose_of 0.30 0.30 0.10 0.35))"
    by (simp add: toy_env_def always_hands_down_def)
  have joints': "get_joints (pose_of 0.30 0.30 0.10 0.35) = Inr ?down"
    by (rule get_joints_pose_of)
  have down: "\<not> hands_up ?down"
    by (simp add: hands_up_def margin_left_def margin_right_def lm_at_def)
  have none: "pose_process (toy_env never_found) (cvtColor_BGR2RGB [[[7, 7, 7]]]) = Inr None"
    by (simp add: toy_env_def never_found_def)
  note T = alert_on_every_hands_up_cycle
  have many: "alerts_started (trace (run (toy_env always_hands_up) (cycles [7] [100, 100, 101]) boot)) =
     [SendEmail ''upload/frame_100.jpg'', SendSms, SendEmail ''upload/frame_100.jpg'', SendSms,
      SendEmail ''upload/frame_101.jpg'', SendSms]"
    using T [THEN conjunct2, THEN conjunct2, THEN conjunct2, rule_format,
             OF conjI [OF dec conjI [OF pose conjI [OF joints up]]], of "[100, 100, 101]"]
    by (simp add: frame_path_100 frame_path_101)
  have quiet: "alerts_started (fst (snd (process_frame (toy_env always_hands_down) 100 [[[7, 7, 7]]] init))) = []"
    using T [THEN conjunct1, rule_format, OF conjI [OF pose' joints'], of 100 init] down
    by simp
  have quiet': "alerts_started (fst (snd (process_frame (toy_env never_found) 100 [[[7, 7, 7]]] init))) = []"
    by (rule T [THEN conjunct2, THEN conjunct1, rule_format, OF none])
  from dec pose joints up many pose' joints' down quiet none quiet' show ?thesis
    by (intro conjI)
qed

section \<open>Failures of the alert channels\<close>

lemma send_email_returns: "fst (send_email C M p) = Inr ()"
  by (simp add: send_email_def split: prod.splits sum.splits)

lemma send_sms_returns: "fst (send_sms C TC) = Inr ()"
  by (simp add: send_sms_def split: option.splits prod.splits sum.splits)

text \<open>
  Claim C8, as amended. A thread started for an alert always returns normally, whatever
  the file system, the mail server and Twilio do: an exception raised anywhere in the
  body of \<^verbatim>\<open>send_email\<close> or of \<^verbatim>\<open>send_sms\<close> is caught there and printed after the
  calls made so far. The SMS channel is skipped, with a diagnostic and no call, exactly
  when the Twilio client class could not be imported. When the class is there,
  \<^verbatim>\<open>send_sms\<close> never looks at whether the Twilio settings are set: it always calls the
  constructor with the two credentials as they are, and, if the constructor returns,
  \<^verbatim>\<open>messages.create\<close> with the two numbers as they are; if the constructor raises,
  the failure is printed and no message is created. What the mail thread does depends
  neither on the Twilio class nor on the four Twilio settings, and what the SMS thread
  does depends neither on the mail world nor on the three mail settings.
\<close>

theorem alert_failures_are_contained:
  "(\<forall>W t. fst (run_thread W t) = Inr ())
   \<and> (\<forall>C M p e evs. send_email_try C M p = (Inl e, evs) \<longrightarrow>
        send_email C M p = (Inr (), evs @ [Print (EmailFailed e)]))
   \<and> (\<forall>C T e evs. send_sms_try C T = (Inl e, evs) \<longrightarrow>
        send_sms C (Some T) = (Inr (), evs @ [Print (SmsFailed e)]))
   \<and> (\<forall>C. send_sms C None = (Inr (), [Print TwilioNotInstalled]))
   \<and> (\<forall>C T e. client_new T (TWILIO_SID C) (TWILIO_AUTH C) = Inl e \<longrightarrow>
        send_sms C (Some T) =
          (Inr (), [TwilioNew (TWILIO_SID C) (TWILIO_AUTH C), Print (SmsFailed e)]))
   \<and> (\<forall>W p TC a b c d.
        run_thread (W\<lparr>TwilioClient := TC,
                      cfg := (cfg W)\<lparr>TWILIO_SID := a, TWILIO_AUTH := b, TWILIO_FROM := c,
                                    TWILIO_TO := d\<rparr>\<rparr>) (SendEmail p) =
        run_thread W (SendEmail p))
   \<and> (\<forall>W M a b c.
        run_thread (W\<lparr>mail := M,
                      cfg := (cfg W)\<lparr>EMAIL_USER := a, EMAIL_PASS := b, TO_EMAIL := c\<rparr>\<rparr>) SendSms =
        run_thread W SendSms)
   \<and> (\<forall>C T. \<exists>evs. send_sms C (Some T) =
        (Inr (), TwilioNew (TWILIO_SID C) (TWILIO_AUTH C) # evs))
   \<and> (\<forall>C T. client_new T (TWILIO_SID C) (TWILIO_AUTH C) = Inr () \<longrightarrow>
        (\<exists>evs. send_sms C (Some T) =
           (Inr (), TwilioNew (TWILIO_SID C) (TWILIO_AUTH C) #
                    TwilioCreate ''Hands-Up detected!'' (TWILIO_FROM C) (TWILIO_TO C) # evs)))"
proof (intro conjI allI impI)
  fix W :: world and t :: task
  show "fst (run_thread W t) = Inr ()"
    by (cases t) (simp_all add: run_thread_def send_email_returns send_sms_returns)
next
  fix C :: config and M :: mail_world and p :: string and e :: exn and evs :: "event list"
  assume "send_email_try C M p = (Inl e, evs)"
  then show "send_email C M p = (Inr (), evs @ [Print (EmailFailed e)])"
    by (simp add: send_email_def)
next
  fix C :: config and T :: twilio_lib and e :: exn and evs :: "event list"
  assume "send_sms_try C T = (Inl e, evs)"
  then show "send_sms C (Some T) = (Inr (), evs @ [Print (SmsFailed e)])"
    by (simp add: send_sms_def)
next
  fix C :: config
  show "send_sms C None = (Inr (), [Print TwilioNotInstalled])"
    by (simp add: send_sms_def)
next
  fix C :: config and T :: twilio_lib and e :: exn
  assume "client_new T (TWILIO_SID C) (TWILIO_AUTH C) = Inl e"
  then show "send_sms C (Some T) =
          (Inr (), [TwilioNew (TWILIO_SID C) (TWILIO_AUTH C), Print (SmsFailed e)])"
    by (simp add: send_sms_def send_sms_try_def attempt_def)
next
  fix W :: world and p :: string and TC :: "twilio_lib option" and a b c d :: "string option"
  show "run_thread (W\<lparr>TwilioClient := TC,
                      cfg := (cfg W)\<lparr>TWILIO_SID := a, TWILIO_AUTH := b, TWILIO_FROM := c,
                                    TWILIO_TO := d\<rparr>\<rparr>) (SendEmail p) =
        run_thread W (SendEmail p)"
    by (simp add: run_thread_def send_email_def send_email_try_def Let_def cong: sum.case_cong)
next
  fix W :: world and M :: mail_world and a b c :: "string option"
  show "run_thread (W\<lparr>mail := M,
                      cfg := (cfg W)\<lparr>EMAIL_USER := a, EMAIL_PASS := b, TO_EMAIL := c\<rparr>\<rparr>) SendSms =
        run_thread W SendSms"
    by (simp add: run_thread_def send_sms_def send_sms_try_def cong: option.case_cong)
next
  fix C :: config and T :: twilio_lib
  show "\<exists>evs. send_sms C (Some T) =
        (Inr (), TwilioNew (TWILIO_SID C) (TWILIO_AUTH C) # evs)"
    by (simp add: send_sms_def send_sms_try_def attempt_def split: sum.splits)
next
  fix C :: config and T :: twilio_lib
  assume "client_new T (TWILIO_SID C) (TWILIO_AUTH C) = Inr ()"
  then show "\<exists>evs. send_sms C (Some T) =
           (Inr (), TwilioNew (TWILIO_SID C) (TWILIO_AUTH C) #
                    TwilioCreate ''Hands-Up detected!'' (TWILIO_FROM C) (TWILIO_TO C) # evs)"
    by (simp add: send_sms_def send_sms_try_def attempt_def split: sum.splits)
qed

text \<open>
  The claim as stated fails: with the Twilio class there and no Twilio setting at all, or
  with the credentials set and the two numbers missing, the SMS channel is not skipped.
  The client is constructed and \<^verbatim>\<open>messages.create\<close> is called with \<^verbatim>\<open>None\<close> for
  both numbers; only the failure of that call is caught and printed.
\<close>

theorem unconfigured_sms_counterexample:
  "send_sms no_config (Some toy_twilio) =
     (Inr (),
      [TwilioNew None None, TwilioCreate ''Hands-Up detected!'' None None,
       Print (SmsFailed (LibraryError ''a phone number is required''))]) \<and>
   send_sms half_config (Some toy_twilio) =
     (Inr (),
      [TwilioNew (Some ''AC1'') (Some ''token''), TwilioCreate ''Hands-Up detected!'' None None,
       Print (SmsFailed (LibraryError ''a phone number is required''))])"
  by (simp add: send_sms_def send_sms_try_def attempt_def toy_twilio_def no_config_def
        half_config_def)

theorem alert_failures_are_contained_witness:
  "send_email_try no_config toy_mail ''upload/frame_100.jpg'' =
     (Inl (LibraryError ''login refused''),
      [OpenRead ''upload/frame_100.jpg'', SmtpConnect, SmtpStartTls, SmtpLogin None None]) \<and>
   send_email no_config toy_mail ''upload/frame_100.jpg'' =
     (Inr (),
      [OpenRead ''upload/frame_100.jpg'', SmtpConnect, SmtpStartTls, SmtpLogin None None,
       Print (EmailFailed (LibraryError ''login refused''))]) \<and>
   send_sms_try half_config toy_twilio =
     (Inl (LibraryError ''a phone number is required''),
      [TwilioNew (Some ''AC1'') (Some ''token''), TwilioCreate ''Hands-Up detected!'' None None]) \<and>
   send_sms half_config (Some toy_twilio) =
     (Inr (),
      [TwilioNew (Some ''AC1'') (Some ''token''), TwilioCreate ''Hands-Up detected!'' None None,
       Print (SmsFailed (LibraryError ''a phone number is required''))]) \<and>
   client_new refusing_twilio (TWILIO_SID no_config) (TWILIO_AUTH no_config) =
     Inl (LibraryError ''client refused'') \<and>
   send_sms no_config (Some refusing_twilio) =
     (Inr (), [TwilioNew None None, Print (SmsFailed (LibraryError ''client refused''))]) \<and>
   client_new toy_twilio (TWILIO_SID no_config) (TWILIO_AUTH no_config) = Inr () \<and>
   (\<exists>evs. send_sms no_config (Some toy_twilio) =
      (Inr (), TwilioNew None None # TwilioCreate ''Hands-Up detected!'' None None # evs)) \<and>
   run_thread (toy_world None) SendSms = (Inr (), [Print TwilioNotInstalled]) \<and>
   fst (run_thread (toy_world (Some toy_twilio)) (SendEmail ''upload/frame_100.jpg'')) = Inr ()"
proof -
  have a: "send_email_try no_config toy_mail ''upload/frame_100.jpg'' =
     (Inl (LibraryError ''login refused''),
      [OpenRead ''upload/frame_100.jpg'', SmtpConnect, SmtpStartTls, SmtpLogin None None])"
    by (simp add: send_email_try_def attempt_def toy_mail_def no_config_def)
  have b: "client_new refusing_twilio (TWILIO_SID no_config) (TWILIO_AUTH no_config) =
     Inl (LibraryError ''client refused'')"
    by (simp add: refusing_twilio_def)
  have c: "TWILIO_SID no_config = None" "TWILIO_AUTH no_config = None"
    "TWILIO_FROM no_config = None" "TWILIO_TO no_config = None"
    by (simp_all add: no_config_def)
  have d: "run_thread (toy_world None) SendSms = send_sms no_config None"
    by (simp add: run_thread_def toy_world_def)
  have e: "send_sms_try half_config toy_twilio =
     (Inl (LibraryError ''a phone number is required''),
      [TwilioNew (Some ''AC1'') (Some ''token''), TwilioCreate ''Hands-Up detected!'' None None])"
    by (simp add: send_sms_try_def attempt_def toy_twilio_def half_config_def)
  have f: "client_new toy_twilio (TWILIO_SID no_config) (TWILIO_AUTH no_config) = Inr ()"
    by (simp add: toy_twilio_def)
  note T = alert_failures_are_contained
  note rest = T [THEN conjunct2, THEN conjunct2, THEN conjunct2, THEN conjunct2, THEN conjunct2,
                 THEN conjunct2, THEN conjunct2]
  have 1: "send_email no_config toy_mail ''upload/frame_100.jpg'' =
     (Inr (),
      [OpenRead ''upload/frame_100.jpg'', SmtpConnect, SmtpStartTls, SmtpLogin None None,
       Print (EmailFailed (LibraryError ''login refused''))])"
    using T [THEN conjunct2, THEN conjunct1, rule_format, OF a] by simp
  have 2: "send_sms half_config (Some toy_twilio) =
     (Inr (),
      [TwilioNew (Some ''AC1'') (Some ''token''), TwilioCreate ''Hands-Up detected!'' None None,
       Print (SmsFailed (LibraryError ''a phone number is required''))])"
    using T [THEN conjunct2, THEN conjunct2, THEN conjunct1, rule_format, OF e] by simp
  have 3: "send_sms no_config (Some refusing_twilio) =
     (Inr (), [TwilioNew None None, Print (SmsFailed (LibraryError ''client refused''))])"
    using T [THEN conjunct2, THEN conjunct2, THEN conjunct2, THEN conjunct2, THEN conjunct1,
             rule_format, OF b]
    by (simp only: c)
  have 4: "\<exists>evs. send_sms no_config (Some toy_twilio) =
      (Inr (), TwilioNew None None # TwilioCreate ''Hands-Up detected!'' None None # evs)"
    using rest [THEN conjunct2, rule_format, OF f] by (simp only: c)
  have 5: "run_thread (toy_world None) SendSms = (Inr (), [Print TwilioNotInstalled])"
    using T [THEN conjunct2, THEN conjunct2, THEN conjunct2, THEN conjunct1, rule_format,
             of no_config]
    by (simp only: d)
  have 6: "fst (run_thread (toy_world (Some toy_twilio)) (SendEmail ''upload/frame_100.jpg'')) = Inr ()"
    by (rule T [THEN conjunct1, rule_format])
  from a 1 e 2 b 3 f 4 5 6 show ?thesis by (intro conjI)
qed

section \<open>What happens while the lock is held\<close>

lemma lock_discipline_append:
  "lock_discipline h xs \<Longrightarrow> lock_discipline False ys \<Longrightarrow> lock_discipline h (xs @ ys)"
  by (induction h xs rule: lock_discipline.induct) auto

lemma upload_lock: "lock_discipline False (fst (snd (upload E data s)))"
  by (simp add: upload_def publish_def split: sum.splits option.splits)

lemma process_frame_lock: "lock_discipline False (fst (snd (process_frame E ts f s)))"
  by (simp add: process_frame_def Let_def split: sum.splits option.splits)

lemma worker_step_lock: "lock_discipline False (fst (snd (frame_worker_step E ts s)))"
proof (cases "latest_frame_to_process s")
  case None
  then show ?thesis by (simp add: worker_step_idle)
next
  case (Some f)
  then show ?thesis by (simp add: worker_step_taken process_frame_lock)
qed

lemma attempt_lock:
  "ev \<noteq> LockAcquire \<Longrightarrow> ev \<noteq> LockRelease \<Longrightarrow> (\<And>v. lock_discipline False (snd (k v))) \<Longrightarrow>
   lock_discipline False (snd (attempt ev r k))"
proof (cases r)
  case (Inl e)
  assume "ev \<noteq> LockAcquire" "ev \<noteq> LockRelease"
  with Inl show ?thesis by (cases ev) (simp_all add: attempt_def)
next
  case (Inr v)
  assume ev: "ev \<noteq> LockAcquire" "ev \<noteq> LockRelease" and k: "\<And>v. lock_discipline False (snd (k v))"
  obtain r' evs where kv: "k v = (r', evs)" by (cases "k v")
  with k [of v] have "lock_discipline False evs" by simp
  with Inr kv ev show ?thesis
    by (cases ev) (simp_all add: attempt_def)
qed

lemma send_email_try_lock: "lock_discipline False (snd (send_email_try C M p))"
  unfolding send_email_try_def Let_def
  by (intro attempt_lock) (simp_all split: sum.splits add: attempt_lock)

lemma send_sms_try_lock: "lock_discipline False (snd (send_sms_try C T))"
  unfolding send_sms_try_def
  by (intro attempt_lock) simp_all

lemma run_thread_lock: "lock_discipline False (snd (run_thread W t))"
proof (cases t)
  case (SendEmail p)
  have "lock_discipline False (snd (send_email (cfg W) (mail W) p))"
    using send_email_try_lock [of "cfg W" "mail W" p]
    by (auto simp: send_email_def lock_discipline_append split: prod.splits sum.splits)
  with SendEmail show ?thesis by (simp add: run_thread_def)
next
  case SendSms
  have "lock_discipline False (snd (send_sms (cfg W) (TwilioClient W)))"
  proof (cases "TwilioClient W")
    case None
    then show ?thesis by (simp add: send_sms_def)
  next
    case (Some T)
    with send_sms_try_lock [of "cfg W" T] show ?thesis
      by (auto simp: send_sms_def lock_discipline_append split: prod.splits sum.splits)
  qed
  with SendSms show ?thesis by (simp add: run_thread_def)
qed

lemma step_lock:
  "lock_discipline False (trace y) \<Longrightarrow> lock_discipline False (trace (step E y a))"
proof (cases a)
  case (Upload data)
  assume "lock_discipline False (trace y)"
  with Upload upload_lock [of E data "st y"] show ?thesis
    by (auto simp: lock_discipline_append split: prod.splits)
next
  case (WorkerTurn ts)
  assume "lock_discipline False (trace y)"
  with WorkerTurn worker_step_lock [of E ts "st y"] show ?thesis
    by (auto simp: lock_discipline_append split: prod.splits sum.splits)
next
  case GetLatest
  assume "lock_discipline False (trace y)"
  with GetLatest show ?thesis by simp
qed

lemma run_lock:
  "lock_discipline False (trace y) \<Longrightarrow> lock_discipline False (trace (run E acts y))"
proof (induction acts arbitrary: y)
  case Nil
  then show ?case by (simp add: run_Nil)
next
  case (Cons a acts)
  from Cons.IH [OF step_lock [OF Cons.prems]] show ?case
    by (simp add: run_Cons)
qed

text \<open>
  Claim C9. In everything an upload does, in every turn of the worker, in every alert
  thread and so in the whole trace of any schedule of requests and turns, the lock is
  acquired only when free, released only when held, released at the end, and between an
  acquire and its release there are only copies of and assignments to the two globals:
  the decoding, the writing of the image file, the estimator, the drawing, the printing,
  the thread starts, the sleep, SMTP and Twilio all happen with the lock free. (The
  module has one lock, \<^verbatim>\<open>frame_lock\<close>, which it takes around the slot only; the latest
  frame is assigned and read with no lock held.)
\<close>

theorem no_io_under_lock:
  "(\<forall>E data s. lock_discipline False (fst (snd (upload E data s))))
   \<and> (\<forall>E ts s. lock_discipline False (fst (snd (frame_worker_step E ts s))))
   \<and> (\<forall>W t. lock_discipline False (snd (run_thread W t)))
   \<and> (\<forall>E acts. lock_discipline False (trace (run E acts boot)))"
proof (intro conjI allI)
  fix E :: env and acts :: "action list"
  have "lock_discipline False (trace boot)" by (simp add: boot_def)
  then show "lock_discipline False (trace (run E acts boot))" by (rule run_lock)
qed (rule upload_lock worker_step_lock run_thread_lock)+

theorem no_io_under_lock_witness:
  "trace (run (toy_env always_hands_up) [Upload [7], WorkerTurn 100] boot) =
     [LockAcquire, SlotAssign, LockRelease, LockAcquire, SlotCopy, SlotAssign, LockRelease,
      ImWrite ''upload/frame_100.jpg'' [[[7, 7, 7]]], PoseProcess [[[7, 7, 7]]],
      Print (Positions 0.10 0.30 0.10 0.30), Print (HandsUpIs True),
      DrawLandmarks (pose_of 0.30 0.30 0.10 0.10), StoreAssign, Print SendingAlert,
      ThreadStart (SendEmail ''upload/frame_100.jpg''), ThreadStart SendSms] \<and>
   lock_discipline False (trace (run (toy_env always_hands_up) [Upload [7], WorkerTurn 100] boot)) \<and>
   \<not> lock_discipline False [LockAcquire, ImWrite ''upload/frame_100.jpg'' [[[7, 7, 7]]], LockRelease] \<and>
   \<not> lock_discipline False [LockAcquire, SlotAssign]"
proof -
  have tr: "trace (run (toy_env always_hands_up) [Upload [7], WorkerTurn 100] boot) =
     [LockAcquire, SlotAssign, LockRelease, LockAcquire, SlotCopy, SlotAssign, LockRelease,
      ImWrite ''upload/frame_100.jpg'' [[[7, 7, 7]]], PoseProcess [[[7, 7, 7]]],
      Print (Positions 0.10 0.30 0.10 0.30), Print (HandsUpIs True),
      DrawLandmarks (pose_of 0.30 0.30 0.10 0.10), StoreAssign, Print SendingAlert,
      ThreadStart (SendEmail ''upload/frame_100.jpg''), ThreadStart SendSms]"
    by (simp add: run_def boot_def init_def upload_def publish_def toy_env_def toy_decode_def
          frame_worker_step_def take_if_present_def process_frame_def cvtColor_BGR2RGB_def
          always_hands_up_def frame_path_100 get_joints_pose_of lm_y_at Let_def
          hands_up_def margin_left_def margin_right_def)
  have ok: "lock_discipline False (trace (run (toy_env always_hands_up) [Upload [7], WorkerTurn 100] boot))"
    by (rule no_io_under_lock [THEN conjunct2, THEN conjunct2, THEN conjunct2, rule_format])
  have bad: "\<not> lock_discipline False [LockAcquire, ImWrite ''upload/frame_100.jpg'' [[[7, 7, 7]]], LockRelease]"
    "\<not> lock_discipline False [LockAcquire, SlotAssign]"
    by simp_all
  from tr ok bad show ?thesis by (intro conjI)
qed

section \<open>The latest frame before any frame was processed\<close>

lemma step_files:
  "\<exists>zs. files_written (trace (step E y a)) = files_written (trace y) @ zs \<and>
        (zs = [] \<longrightarrow> latest_frame (st (step E y a)) = latest_frame (st y))"
proof (cases a)
  case (Upload data)
  have "files_written (fst (snd (upload E data (st y)))) = []"
    "latest_frame (snd (snd (upload E data (st y)))) = latest_frame (st y)"
    by (simp_all add: upload_def publish_def split: sum.splits option.splits)
  with Upload show ?thesis
    by (auto simp: files_written_append split: prod.splits)
next
  case (WorkerTurn ts)
  show ?thesis
  proof (cases "worker_alive y")
    case False
    with WorkerTurn show ?thesis by simp
  next
    case True
    show ?thesis
    proof (cases "latest_frame_to_process (st y)")
      case None
      with WorkerTurn True show ?thesis
        by (simp add: worker_step_idle files_written_append)
    next
      case (Some f)
      have "files_written (fst (snd (frame_worker_step E ts (st y)))) = [(frame_path_of ts, f)]"
        by (simp add: worker_step_taken [OF Some] process_frame_files)
      with WorkerTurn True show ?thesis
        by (auto simp: files_written_append split: prod.splits sum.splits)
    qed
  qed
next
  case GetLatest
  then show ?thesis by simp
qed

lemma run_files:
  "\<exists>zs. files_written (trace (run E acts y)) = files_written (trace y) @ zs \<and>
        (zs = [] \<longrightarrow> latest_frame (st (run E acts y)) = latest_frame (st y))"
proof (induction acts arbitrary: y)
  case Nil
  then show ?case by (simp add: run_Nil)
next
  case (Cons a acts)
  obtain zs1 where 1: "files_written (trace (step E y a)) = files_written (trace y) @ zs1"
    "zs1 = [] \<longrightarrow> latest_frame (st (step E y a)) = latest_frame (st y)"
    using step_files [of E y a] by blast
  obtain zs2 where 2:
    "files_written (trace (run E acts (step E y a))) = files_written (trace (step E y a)) @ zs2"
    "zs2 = [] \<longrightarrow> latest_frame (st (run E acts (step E y a))) = latest_frame (st (step E y a))"
    using Cons.IH [of "step E y a"] by blast
  have "files_written (trace (run E (a # acts) y)) = files_written (trace y) @ (zs1 @ zs2)"
    by (simp only: run_Cons 1(1) 2(1) append_assoc)
  moreover have "zs1 @ zs2 = [] \<longrightarrow> latest_frame (st (run E (a # acts) y)) = latest_frame (st y)"
    using 1(2) 2(2) by (simp add: run_Cons)
  ultimately show ?case by blast
qed

lemma np_zeros_shape:
  "length (np_zeros h w c) = h \<and>
   (\<forall>row \<in> set (np_zeros h w c). length row = w \<and> (\<forall>px \<in> set row. px = replicate c 0))"
  by (auto simp: np_zeros_def)

text \<open>
  Claim C10. As long as the worker has processed no frame (it has written no image file,
  which is the first thing \<^verbatim>\<open>process_frame\<close> does), whatever uploads, reads and idle
  turns came before, \<^verbatim>\<open>GET /latest.jpg\<close> is answered, with status 200 and content
  type \<^verbatim>\<open>image/jpeg\<close>, by the JPEG encoding of the array the module starts with:
  480 rows of 640 pixels of 3 channels, all zero. The route takes no lock and changes
  nothing.
\<close>

theorem latest_before_first_frame_is_black:
  "files_written (trace (run E acts boot)) = [] \<Longrightarrow>
   latest E (st (run E acts boot)) =
     \<lparr>body = imencode E (np_zeros 480 640 3), status = 200, mimetype = ''image/jpeg''\<rparr>
   \<and> responses (run E (acts @ [GetLatest]) boot) =
       responses (run E acts boot) @
       [\<lparr>body = imencode E (np_zeros 480 640 3), status = 200, mimetype = ''image/jpeg''\<rparr>]
   \<and> st (run E (acts @ [GetLatest]) boot) = st (run E acts boot)
   \<and> trace (run E (acts @ [GetLatest]) boot) = trace (run E acts boot)
   \<and> latest_frame init = np_zeros 480 640 3
   \<and> length (np_zeros 480 640 3) = 480
   \<and> (\<forall>row \<in> set (np_zeros 480 640 3). length row = 640 \<and> (\<forall>px \<in> set row. px = [0, 0, 0]))"
proof -
  assume none: "files_written (trace (run E acts boot)) = []"
  obtain zs where zs: "files_written (trace (run E acts boot)) = files_written (trace boot) @ zs"
    "zs = [] \<longrightarrow> latest_frame (st (run E acts boot)) = latest_frame (st boot)"
    using run_files [of E acts boot] by blast
  from none zs(1) have "zs = []" by simp
  with zs(2) have lf: "latest_frame (st (run E acts boot)) = np_zeros 480 640 3"
    by (simp add: boot_def init_def)
  have get: "run E (acts @ [GetLatest]) boot = step E (run E acts boot) GetLatest"
    by (simp add: run_def)
  have px: "replicate 3 (0 :: byte) = [0, 0, 0]"
    by (simp add: eval_nat_numeral)
  from lf np_zeros_shape [of 480 640 3] show ?thesis
    by (simp add: get latest_def init_def px)
qed

theorem latest_before_first_frame_is_black_witness:
  "files_written (trace (run (toy_env never_found) [GetLatest, Upload [7], WorkerTurn 100] boot)) \<noteq> [] \<and>
   files_written (trace (run (toy_env never_found) [WorkerTurn 99, Upload [7], Upload [8]] boot)) = [] \<and>
   responses (run (toy_env never_found) ([WorkerTurn 99, Upload [7], Upload [8]] @ [GetLatest]) boot) =
     [text_response ''OK'' 200, text_response ''OK'' 200,
      \<lparr>body = concat (concat (np_zeros 480 640 3)), status = 200, mimetype = ''image/jpeg''\<rparr>]"
proof -
  let ?E = "toy_env never_found"
  have a: "files_written (trace (run ?E [WorkerTurn 99, Upload [7], Upload [8]] boot)) = []"
    by (simp add: run_def boot_def init_def upload_def publish_def toy_env_def toy_decode_def
          frame_worker_step_def take_if_present_def)
  have b: "files_written (trace (run ?E [GetLatest, Upload [7], WorkerTurn 100] boot)) \<noteq> []"
    by (simp add: run_def boot_def init_def upload_def publish_def toy_env_def toy_decode_def
          frame_worker_step_def take_if_present_def process_frame_def never_found_def)
  have c: "responses (run ?E [WorkerTurn 99, Upload [7], Upload [8]] boot) =
      [text_response ''OK'' 200, text_response ''OK'' 200]"
    by (simp add: run_def boot_def init_def upload_def publish_def toy_env_def toy_decode_def
          frame_worker_step_def take_if_present_def)
  have d: "imencode ?E (np_zeros 480 640 3) = concat (concat (np_zeros 480 640 3))"
    by (simp add: toy_env_def)
  from latest_before_first_frame_is_black [OF a, THEN conjunct2, THEN conjunct1]
  have "responses (run ?E ([WorkerTurn 99, Upload [7], Upload [8]] @ [GetLatest]) boot) =
     [text_response ''OK'' 200, text_response ''OK'' 200,
      \<lparr>body = concat (concat (np_zeros 480 640 3)), status = 200, mimetype = ''image/jpeg''\<rparr>]"
    by (simp only: c d append.simps)
  with a b show ?thesis by (intro conjI)
qed

end
